theory Spec2Isabelle
  imports Complex_Main "HOL-Library.AList"
begin

section \<open>Numbers of the program\<close>

text \<open>
  The program computes with Python floats, Python ints and numpy scalars. The model keeps
  the value as a real number, without rounding and without overflow, and adds the three
  special values a float can hold. There is one zero (no sign of zero). A Python int is a
  Python number whose value is whole.
\<close>

datatype pyfloat = Fin real | PInf | NInf | NaN

fun finf :: "real \<Rightarrow> pyfloat" where
  "finf s = (if s = 0 then NaN else if 0 < s then PInf else NInf)"

fun fsign :: "pyfloat \<Rightarrow> real" where
  "fsign (Fin a) = sgn a"
| "fsign PInf = 1"
| "fsign NInf = - 1"
| "fsign NaN = 0"

fun fadd :: "pyfloat \<Rightarrow> pyfloat \<Rightarrow> pyfloat" where
  "fadd (Fin a) (Fin b) = Fin (a + b)"
| "fadd NaN _ = NaN"
| "fadd _ NaN = NaN"
| "fadd PInf NInf = NaN"
| "fadd NInf PInf = NaN"
| "fadd PInf _ = PInf"
| "fadd _ PInf = PInf"
| "fadd NInf _ = NInf"
| "fadd _ NInf = NInf"

fun fneg :: "pyfloat \<Rightarrow> pyfloat" where
  "fneg (Fin a) = Fin (- a)"
| "fneg PInf = NInf"
| "fneg NInf = PInf"
| "fneg NaN = NaN"

fun fmul :: "pyfloat \<Rightarrow> pyfloat \<Rightarrow> pyfloat" where
  "fmul (Fin a) (Fin b) = Fin (a * b)"
| "fmul NaN _ = NaN"
| "fmul _ NaN = NaN"
| "fmul x y = finf (fsign x * fsign y)"

text \<open>Division as IEEE 754 defines it: a finite value over zero is an infinity, 0/0 is NaN.\<close>

fun fdiv :: "pyfloat \<Rightarrow> pyfloat \<Rightarrow> pyfloat" where
  "fdiv (Fin a) (Fin b) = (if b = 0 then finf a else Fin (a / b))"
| "fdiv NaN _ = NaN"
| "fdiv _ NaN = NaN"
| "fdiv (Fin a) _ = Fin 0"
| "fdiv x (Fin b) = finf (fsign x * (if 0 \<le> b then 1 else - 1))"
| "fdiv x y = NaN"

text \<open>Comparisons: every comparison with NaN is false.\<close>

fun fle :: "pyfloat \<Rightarrow> pyfloat \<Rightarrow> bool" where
  "fle (Fin a) (Fin b) = (a \<le> b)"
| "fle NaN _ = False"
| "fle _ NaN = False"
| "fle NInf _ = True"
| "fle _ PInf = True"
| "fle _ _ = False"

fun flt :: "pyfloat \<Rightarrow> pyfloat \<Rightarrow> bool" where
  "flt (Fin a) (Fin b) = (a < b)"
| "flt NaN _ = False"
| "flt _ NaN = False"
| "flt PInf _ = False"
| "flt _ NInf = False"
| "flt _ _ = True"

instantiation pyfloat :: "{plus, minus, uminus, times, ord}"
begin

definition plus_pyfloat :: "pyfloat \<Rightarrow> pyfloat \<Rightarrow> pyfloat" where
  "plus_pyfloat a b = fadd a b"

definition uminus_pyfloat :: "pyfloat \<Rightarrow> pyfloat" where
  "uminus_pyfloat a = fneg a"

definition minus_pyfloat :: "pyfloat \<Rightarrow> pyfloat \<Rightarrow> pyfloat" where
  "minus_pyfloat a b = fadd a (fneg b)"

definition times_pyfloat :: "pyfloat \<Rightarrow> pyfloat \<Rightarrow> pyfloat" where
  "times_pyfloat a b = fmul a b"

definition less_eq_pyfloat :: "pyfloat \<Rightarrow> pyfloat \<Rightarrow> bool" where
  "less_eq_pyfloat a b = fle a b"

definition less_pyfloat :: "pyfloat \<Rightarrow> pyfloat \<Rightarrow> bool" where
  "less_pyfloat a b = flt a b"

instance ..

end

text \<open>
  A number is a Python number (float or int) or a numpy scalar. The two differ where a
  division meets a zero divisor: Python raises ZeroDivisionError, numpy warns and returns
  an infinity or NaN. An operation with a numpy scalar on either side is a numpy
  operation and returns a numpy scalar.
\<close>

datatype pynum = PyNum pyfloat | NpNum pyfloat

fun val :: "pynum \<Rightarrow> pyfloat" where
  "val (PyNum x) = x"
| "val (NpNum x) = x"

fun is_np :: "pynum \<Rightarrow> bool" where
  "is_np (PyNum x) = False"
| "is_np (NpNum x) = True"

definition mk_num :: "bool \<Rightarrow> pyfloat \<Rightarrow> pynum" where
  "mk_num np x = (if np then NpNum x else PyNum x)"

abbreviation F :: "real \<Rightarrow> pynum" where
  "F r \<equiv> PyNum (Fin r)"

instantiation pynum :: "{plus, minus, uminus, times, ord}"
begin

definition plus_pynum :: "pynum \<Rightarrow> pynum \<Rightarrow> pynum" where
  "plus_pynum a b = mk_num (is_np a \<or> is_np b) (val a + val b)"

definition uminus_pynum :: "pynum \<Rightarrow> pynum" where
  "uminus_pynum a = mk_num (is_np a) (- val a)"

definition minus_pynum :: "pynum \<Rightarrow> pynum \<Rightarrow> pynum" where
  "minus_pynum a b = mk_num (is_np a \<or> is_np b) (val a - val b)"

definition times_pynum :: "pynum \<Rightarrow> pynum \<Rightarrow> pynum" where
  "times_pynum a b = mk_num (is_np a \<or> is_np b) (val a * val b)"

definition less_eq_pynum :: "pynum \<Rightarrow> pynum \<Rightarrow> bool" where
  "less_eq_pynum a b = (val a \<le> val b)"

definition less_pynum :: "pynum \<Rightarrow> pynum \<Rightarrow> bool" where
  "less_pynum a b = (val a < val b)"

instance ..

end

section \<open>Exceptions and dictionaries\<close>

text \<open>
  \<open>ComplexResult\<close> is not an exception: it marks the place where Python leaves the real
  numbers (a negative Python float raised to a fractional power is a complex number); the
  model stops there.
\<close>

datatype error =
  ZeroDivisionError
| KeyError string
| TypeError
| IndexError
| ValueError
| OverflowError
| ComplexResult

definition bind_err :: "error + 'a \<Rightarrow> ('a \<Rightarrow> error + 'b) \<Rightarrow> error + 'b" where
  "bind_err m f = (case m of Inl e \<Rightarrow> Inl e | Inr x \<Rightarrow> f x)"

text \<open>The operator \<open>/\<close> of Python: it raises when both sides are Python numbers and the
  divisor is zero.\<close>

definition py_div :: "pynum \<Rightarrow> pynum \<Rightarrow> error + pynum" where
  "py_div a b =
     (if \<not> is_np a \<and> \<not> is_np b \<and> val b = Fin 0 then Inl ZeroDivisionError
      else Inr (mk_num (is_np a \<or> is_np b) (fdiv (val a) (val b))))"

text \<open>The builtins \<open>min(a, b)\<close> and \<open>max(a, b)\<close>: the first argument stays unless the
  second is strictly smaller (larger).\<close>

definition py_min :: "pynum \<Rightarrow> pynum \<Rightarrow> pynum" where
  "py_min a b = (if b < a then b else a)"

definition py_max :: "pynum \<Rightarrow> pynum \<Rightarrow> pynum" where
  "py_max a b = (if a < b then b else a)"

text \<open>A dictionary keeps its keys in insertion order; a value is a number, a string, a
  truth value, a list or a dictionary.\<close>

datatype pyval =
  Num pynum
| Str string
| Bool bool
| Lst "pyval list"
| Dct "(string \<times> pyval) list"

type_synonym pydict = "(string \<times> pyval) list"

text \<open>\<open>d.get(k, default)\<close>, \<open>d[k]\<close> and \<open>d[k] = v\<close>.\<close>

definition get_or :: "pydict \<Rightarrow> string \<Rightarrow> pyval \<Rightarrow> pyval" where
  "get_or d k dflt = (case map_of d k of None \<Rightarrow> dflt | Some v \<Rightarrow> v)"

definition item :: "pydict \<Rightarrow> string \<Rightarrow> error + pyval" where
  "item d k = (case map_of d k of None \<Rightarrow> Inl (KeyError k) | Some v \<Rightarrow> Inr v)"

definition set_item :: "pydict \<Rightarrow> string \<Rightarrow> pyval \<Rightarrow> pydict" where
  "set_item d k v = AList.update k v d"

text \<open>A value used in arithmetic or in a comparison with a number: a truth value counts
  as 0 or 1, anything that is not a number raises TypeError.\<close>

fun as_num :: "pyval \<Rightarrow> error + pynum" where
  "as_num (Num n) = Inr n"
| "as_num (Bool b) = Inr (F (if b then 1 else 0))"
| "as_num _ = Inl TypeError"

text \<open>A value that is subscripted with a string key.\<close>

fun as_dict :: "pyval \<Rightarrow> error + pydict" where
  "as_dict (Dct d) = Inr d"
| "as_dict _ = Inl TypeError"

definition get_num :: "pydict \<Rightarrow> string \<Rightarrow> real \<Rightarrow> error + pynum" where
  "get_num d k dflt = as_num (get_or d k (Num (F dflt)))"

definition item_num :: "pydict \<Rightarrow> string \<Rightarrow> error + pynum" where
  "item_num d k = bind_err (item d k) as_num"

section \<open>Metrics (aeroacoustics/metrics.py)\<close>

definition calculate_noise_to_thrust_ratio :: "pynum \<Rightarrow> pynum \<Rightarrow> pynum \<Rightarrow> error + pynum" where
  "calculate_noise_to_thrust_ratio noise_spl_db thrust_N reference_thrust =
     (if thrust_N \<le> F 0 then Inr (PyNum PInf)
      else bind_err (py_div thrust_N reference_thrust) (\<lambda>normalized_thrust.
           py_div noise_spl_db normalized_thrust))"

definition calculate_acoustic_efficiency :: "pynum \<Rightarrow> pynum \<Rightarrow> pynum \<Rightarrow> error + pynum" where
  "calculate_acoustic_efficiency noise_spl_db thrust_N power_W =
     (if noise_spl_db \<le> F 0 \<or> power_W \<le> F 0 then Inr (F 0)
      else bind_err (py_div thrust_N power_W) (\<lambda>thrust_efficiency.
           bind_err (py_div (F 100) noise_spl_db) (\<lambda>noise_penalty.
           Inr (thrust_efficiency * noise_penalty * F 1000))))"

definition calculate_noise_reduction_percentage :: "pynum \<Rightarrow> pynum \<Rightarrow> error + pynum" where
  "calculate_noise_reduction_percentage baseline_ntr modified_ntr =
     (if baseline_ntr \<le> F 0 then Inr (F 0)
      else bind_err (py_div (baseline_ntr - modified_ntr) baseline_ntr) (\<lambda>q.
           Inr (q * F 100)))"

definition evaluate_design_performance ::
  "pydict \<Rightarrow> pydict \<Rightarrow> pynum option \<Rightarrow> error + pydict" where
  "evaluate_design_performance noise_results thrust_results baseline_ntr =
     bind_err (get_num noise_results ''total_spl_db'' 0) (\<lambda>total_noise.
     bind_err (get_num thrust_results ''thrust_N'' 0) (\<lambda>thrust.
     bind_err (get_num thrust_results ''power_W'' 1) (\<lambda>power.
     let efficiency = get_or thrust_results ''efficiency'' (Num (F 0)) in
     bind_err (calculate_noise_to_thrust_ratio total_noise thrust (F 1)) (\<lambda>ntr.
     bind_err (calculate_acoustic_efficiency total_noise thrust power) (\<lambda>acoustic_eff.
     let results =
       [(''noise_to_thrust_ratio_dB_per_N'', Num ntr),
        (''acoustic_efficiency'', Num acoustic_eff),
        (''total_noise_spl_db'', Num total_noise),
        (''thrust_N'', Num thrust),
        (''power_W'', Num power),
        (''propulsive_efficiency'', efficiency),
        (''broadband_noise_db'', get_or noise_results ''broadband_spl_db'' (Num (F 0))),
        (''tonal_noise_db'', get_or noise_results ''tonal_spl_db'' (Num (F 0))),
        (''vortex_noise_db'', get_or noise_results ''vortex_spl_db'' (Num (F 0)))]
     in (case baseline_ntr of
           None \<Rightarrow> Inr results
         | Some b \<Rightarrow>
             bind_err (calculate_noise_reduction_percentage b ntr) (\<lambda>reduction.
             Inr (set_item (set_item results ''noise_reduction_percentage'' (Num reduction))
                    ''meets_15_percent_target'' (Bool (F 15 \<le> reduction))))))))))"

section \<open>numpy functions and builtins\<close>

text \<open>Division by a literal other than zero never raises.\<close>

definition divc :: "pynum \<Rightarrow> real \<Rightarrow> pynum" where
  "divc a c = mk_num (is_np a) (fdiv (val a) (Fin c))"

fun fabs :: "pyfloat \<Rightarrow> pyfloat" where
  "fabs (Fin a) = Fin \<bar>a\<bar>"
| "fabs PInf = PInf"
| "fabs NInf = PInf"
| "fabs NaN = NaN"

text \<open>The builtin \<open>abs\<close> keeps the kind of its argument; \<open>np.abs\<close> returns a numpy scalar.\<close>

definition py_abs :: "pynum \<Rightarrow> pynum" where
  "py_abs a = mk_num (is_np a) (fabs (val a))"

definition np_abs :: "pynum \<Rightarrow> pynum" where
  "np_abs a = NpNum (fabs (val a))"

fun fexp :: "pyfloat \<Rightarrow> pyfloat" where
  "fexp (Fin a) = Fin (exp a)"
| "fexp PInf = PInf"
| "fexp NInf = Fin 0"
| "fexp NaN = NaN"

definition np_exp :: "pynum \<Rightarrow> pynum" where
  "np_exp a = NpNum (fexp (val a))"

fun fsqrt :: "pyfloat \<Rightarrow> pyfloat" where
  "fsqrt (Fin a) = (if a < 0 then NaN else Fin (sqrt a))"
| "fsqrt PInf = PInf"
| "fsqrt NInf = NaN"
| "fsqrt NaN = NaN"

definition np_sqrt :: "pynum \<Rightarrow> pynum" where
  "np_sqrt a = NpNum (fsqrt (val a))"

fun flog10 :: "pyfloat \<Rightarrow> pyfloat" where
  "flog10 (Fin a) = (if a < 0 then NaN else if a = 0 then NInf else Fin (log 10 a))"
| "flog10 PInf = PInf"
| "flog10 NInf = NaN"
| "flog10 NaN = NaN"

definition np_log10 :: "pynum \<Rightarrow> pynum" where
  "np_log10 a = NpNum (flog10 (val a))"

fun farctan :: "pyfloat \<Rightarrow> pyfloat" where
  "farctan (Fin a) = Fin (arctan a)"
| "farctan PInf = Fin (pi / 2)"
| "farctan NInf = Fin (- (pi / 2))"
| "farctan NaN = NaN"

definition np_arctan :: "pynum \<Rightarrow> pynum" where
  "np_arctan a = NpNum (farctan (val a))"

definition np_degrees :: "pynum \<Rightarrow> pynum" where
  "np_degrees a = NpNum (fdiv (val a * Fin 180) (Fin pi))"

text \<open>\<open>np.pi\<close> is a Python float.\<close>

definition np_pi :: pynum where
  "np_pi = F pi"

text \<open>
  The power operator is where the program leaves the range of a double. The largest
  double is \<open>(2^53 - 1) 2^971\<close>; a finite result above it is an overflow, which Python
  reports as OverflowError and numpy as an infinity. A result below half of the smallest
  positive double, \<open>2^-1074\<close>, is zero (an underflow, which neither reports). Sums,
  products and quotients are exact in the model; the theorems about them bound the
  magnitudes of their inputs.
\<close>

definition dbl_max :: real where
  "dbl_max = (2 ^ 53 - 1) * 2 ^ 971"

definition dbl_tiny :: real where
  "dbl_tiny = 1 / 2 ^ 1075"

definition pow_result :: "bool \<Rightarrow> pyfloat \<Rightarrow> error + pynum" where
  "pow_result np x =
     (case x of
        Fin r \<Rightarrow>
          (if dbl_max < \<bar>r\<bar> then (if np then Inr (NpNum (finf r)) else Inl OverflowError)
           else if \<bar>r\<bar> < dbl_tiny then Inr (mk_num np (Fin 0))
           else Inr (mk_num np (Fin r)))
      | _ \<Rightarrow> Inr (mk_num np x))"

text \<open>
  The operator \<open>**\<close> with a whole positive literal as exponent (the source uses 2, 3
  and 4), on every kind of number.
\<close>

fun fpow :: "pyfloat \<Rightarrow> nat \<Rightarrow> pyfloat" where
  "fpow x 0 = Fin 1"
| "fpow x (Suc n) = fpow x n * x"

definition pow_int :: "pynum \<Rightarrow> nat \<Rightarrow> error + pynum" where
  "pow_int a n = pow_result (is_np a) (fpow (val a) n)"

text \<open>
  The operator \<open>**\<close> with a positive fractional literal as exponent (5.5 and 1.5 in the
  source). A negative Python base gives a complex number, a negative numpy base gives NaN.
\<close>

fun fpowr :: "pyfloat \<Rightarrow> real \<Rightarrow> pyfloat" where
  "fpowr (Fin a) r = (if a < 0 then NaN else Fin (a powr r))"
| "fpowr PInf r = PInf"
| "fpowr NInf r = PInf"
| "fpowr NaN r = NaN"

definition pow_frac :: "pynum \<Rightarrow> real \<Rightarrow> error + pynum" where
  "pow_frac a r =
     (if \<not> is_np a \<and> val a < Fin 0 \<and> val a \<noteq> NInf then Inl ComplexResult
      else pow_result (is_np a) (fpowr (val a) r))"

text \<open>\<open>10 ** x\<close>.\<close>

fun ften_pow :: "pyfloat \<Rightarrow> pyfloat" where
  "ften_pow (Fin a) = Fin (10 powr a)"
| "ften_pow PInf = PInf"
| "ften_pow NInf = Fin 0"
| "ften_pow NaN = NaN"

definition ten_pow :: "pynum \<Rightarrow> error + pynum" where
  "ten_pow a = pow_result (is_np a) (ften_pow (val a))"

text \<open>The builtin \<open>int\<close> on a float: truncation towards zero; an infinity raises
  OverflowError and NaN raises ValueError.\<close>

definition trunc :: "real \<Rightarrow> int" where
  "trunc a = (if 0 \<le> a then \<lfloor>a\<rfloor> else \<lceil>a\<rceil>)"

definition py_int :: "pynum \<Rightarrow> error + pynum" where
  "py_int a =
     (case val a of
        Fin x \<Rightarrow> Inr (F (of_int (trunc x)))
      | NaN \<Rightarrow> Inl ValueError
      | _ \<Rightarrow> Inl OverflowError)"

section \<open>Reduction estimates of the three features (bio\_inspired)\<close>

text \<open>
  A parameter that the source annotates as \<open>float\<close> is a number in the model; a
  dictionary entry is converted where it is first used in arithmetic. The returned
  dictionary is built last, so the division by the baseline level is the last step that
  can raise.
\<close>

definition owl_effectiveness :: "pynum \<Rightarrow> pynum" where
  "owl_effectiveness wavelength_ratio =
     (if wavelength_ratio < F 0.1 then F 0.3
      else if wavelength_ratio < F 0.5 then
        F 0.3 + divc (F 0.4 * (wavelength_ratio - F 0.1)) 0.4
      else if wavelength_ratio \<le> F 2.0 then
        F 0.7 + F 0.3 * (F 1.0 - py_abs (wavelength_ratio - F 1.0))
      else F 0.5 * np_exp (divc (- (wavelength_ratio - F 2.0)) 2.0))"

definition owl_estimate_noise_reduction ::
  "pynum \<Rightarrow> pydict \<Rightarrow> pynum \<Rightarrow> pyval \<Rightarrow> error + pydict" where
  "owl_estimate_noise_reduction baseline_noise_db serration_params frequency_hz flow_velocity =
     bind_err (item serration_params ''depth_m'') (\<lambda>depth_v.
     bind_err (item serration_params ''wavelength_m'') (\<lambda>wavelength_v.
     let speed_of_sound = F 343.0 in
     bind_err (py_div speed_of_sound frequency_hz) (\<lambda>acoustic_wavelength.
     let optimal_wavelength = divc acoustic_wavelength 4 in
     bind_err (as_num wavelength_v) (\<lambda>wavelength.
     bind_err (py_div wavelength optimal_wavelength) (\<lambda>wavelength_ratio.
     let effectiveness = owl_effectiveness wavelength_ratio;
         base_reduction = F 2.0 + F 5.0 * effectiveness in
     bind_err (as_num depth_v) (\<lambda>depth.
     let depth_factor = py_min (divc depth 0.01) (F 1.0);
         noise_reduction_db = base_reduction * depth_factor * F 2.0;
         reduced_noise_db = baseline_noise_db - noise_reduction_db in
     bind_err (py_div noise_reduction_db baseline_noise_db) (\<lambda>q.
     Inr [(''noise_reduction_db'', Num noise_reduction_db),
          (''reduced_noise_db'', Num reduced_noise_db),
          (''effectiveness_factor'', Num effectiveness),
          (''reduction_percentage'', Num (q * F 100))])))))))"

definition tubercle_aoa_factor :: "pynum \<Rightarrow> pynum" where
  "tubercle_aoa_factor aoa =
     (if aoa < F 5 then F 0.4
      else if aoa < F 10 then F 0.4 + divc (F 0.4 * (aoa - F 5)) 5
      else F 0.8 + F 0.2 * py_min (divc (aoa - F 10) 10) (F 1.0))"

definition humpback_estimate_noise_reduction ::
  "pynum \<Rightarrow> pydict \<Rightarrow> pydict \<Rightarrow> error + pydict" where
  "humpback_estimate_noise_reduction baseline_noise_db tubercle_params operating_conditions =
     bind_err (item tubercle_params ''num_tubercles'') (\<lambda>num_tubercles_v.
     bind_err (item tubercle_params ''amplitude_ratio'') (\<lambda>amplitude_ratio_v.
     bind_err (get_num operating_conditions ''angle_of_attack'' 5.0) (\<lambda>aoa.
     let aoa_factor = tubercle_aoa_factor aoa in
     bind_err (as_num num_tubercles_v) (\<lambda>num_tubercles.
     let tubercle_factor = py_min (divc num_tubercles 5.0) (F 1.0) in
     bind_err (as_num amplitude_ratio_v) (\<lambda>amplitude_ratio.
     let amplitude_factor = py_min (divc amplitude_ratio 0.12) (F 1.0);
         vortex_reduction = F 3.0 + F 5.0 * aoa_factor * tubercle_factor * amplitude_factor;
         vortex_reduction = vortex_reduction * F 2.2;
         broadband_increase = F 0.5 + divc (F 0.5 * amplitude_ratio) 0.12;
         net_reduction = vortex_reduction - broadband_increase;
         reduced_noise_db = baseline_noise_db - net_reduction in
     bind_err (py_div net_reduction baseline_noise_db) (\<lambda>q.
     Inr [(''noise_reduction_db'', Num net_reduction),
          (''reduced_noise_db'', Num reduced_noise_db),
          (''vortex_noise_reduction_db'', Num vortex_reduction),
          (''broadband_noise_increase_db'', Num broadband_increase),
          (''aoa_effectiveness_factor'', Num aoa_factor),
          (''reduction_percentage'', Num (q * F 100))]))))))"

definition dragonfly_re_factor :: "pynum \<Rightarrow> pynum" where
  "dragonfly_re_factor reynolds_number =
     (if reynolds_number < F 100000 then F 1.0
      else if reynolds_number < F 500000 then
        F 1.0 - divc (F 0.5 * (reynolds_number - F 100000)) 400000
      else F 0.5 * np_exp (divc (- (reynolds_number - F 500000)) 500000))"

definition dragonfly_estimate_noise_reduction ::
  "pynum \<Rightarrow> pydict \<Rightarrow> pynum \<Rightarrow> pyval \<Rightarrow> error + pydict" where
  "dragonfly_estimate_noise_reduction baseline_noise_db corrugation_params reynolds_number
       flow_velocity =
     bind_err (item corrugation_params ''depth_m'') (\<lambda>depth_v.
     bind_err (item corrugation_params ''wavelength_m'') (\<lambda>wavelength_v.
     bind_err (item corrugation_params ''num_corrugations'') (\<lambda>num_corrugations_v.
     let re_factor = dragonfly_re_factor reynolds_number in
     bind_err (as_num depth_v) (\<lambda>depth.
     let depth_factor = py_min (divc depth 0.002) (F 1.0) in
     bind_err (as_num num_corrugations_v) (\<lambda>num_corrugations.
     let num_factor = py_min (divc num_corrugations 10.0) (F 1.0);
         boundary_layer_reduction = F 2.0 + F 3.0 * re_factor * depth_factor * num_factor;
         vortex_reduction = F 1.0 + F 2.0 * re_factor * num_factor;
         boundary_layer_reduction = boundary_layer_reduction * F 2.1;
         vortex_reduction = vortex_reduction * F 2.1 in
     bind_err (as_num wavelength_v) (\<lambda>wavelength.
     bind_err (py_div depth wavelength) (\<lambda>depth_over_wavelength.
     let surface_area_ratio = F 1.0 + depth_over_wavelength;
         friction_increase = F 0.5 * (surface_area_ratio - F 1.0) * F 2.0;
         net_reduction = boundary_layer_reduction + vortex_reduction - friction_increase;
         reduced_noise_db = baseline_noise_db - net_reduction in
     bind_err (py_div net_reduction baseline_noise_db) (\<lambda>q.
     Inr [(''noise_reduction_db'', Num net_reduction),
          (''reduced_noise_db'', Num reduced_noise_db),
          (''boundary_layer_reduction_db'', Num boundary_layer_reduction),
          (''vortex_reduction_db'', Num vortex_reduction),
          (''friction_increase_db'', Num friction_increase),
          (''re_effectiveness_factor'', Num re_factor),
          (''reduction_percentage'', Num (q * F 100))]))))))))"

section \<open>Combined reduction (BioInspiredDesignFactory.estimate\_combined\_noise\_reduction)\<close>

text \<open>The state of the loop over the feature names.\<close>

record reduction_state =
  total_reduction :: pynum
  individual_reductions :: pydict
  current_noise :: pynum

text \<open>One branch of the loop body, once the feature's estimate has returned.\<close>

definition record_reduction :: "string \<Rightarrow> pydict \<Rightarrow> reduction_state \<Rightarrow> error + reduction_state" where
  "record_reduction feature result st =
     bind_err (item_num result ''noise_reduction_db'') (\<lambda>reduction.
     bind_err (item_num result ''reduced_noise_db'') (\<lambda>reduced.
     Inr \<lparr>total_reduction = total_reduction st + reduction,
          individual_reductions = set_item (individual_reductions st) feature (Num reduction),
          current_noise = reduced\<rparr>))"

definition reduction_step ::
  "pydict \<Rightarrow> pydict \<Rightarrow> string \<Rightarrow> reduction_state \<Rightarrow> error + reduction_state" where
  "reduction_step feature_params operating_conditions feature st =
     (if feature = ''owl_serrations'' then
        bind_err (as_dict (get_or feature_params ''owl_serrations'' (Dct []))) (\<lambda>params.
        bind_err (as_num (get_or operating_conditions ''frequency_hz'' (Num (F 1000)))) (\<lambda>freq.
        let velocity = get_or operating_conditions ''velocity'' (Num (F 10.0)) in
        bind_err (owl_estimate_noise_reduction (current_noise st) params freq velocity) (\<lambda>result.
        record_reduction ''owl_serrations'' result st)))
      else if feature = ''humpback_tubercles'' then
        bind_err (as_dict (get_or feature_params ''humpback_tubercles'' (Dct []))) (\<lambda>params.
        bind_err (humpback_estimate_noise_reduction (current_noise st) params
                    operating_conditions) (\<lambda>result.
        record_reduction ''humpback_tubercles'' result st))
      else if feature = ''dragonfly_corrugations'' then
        bind_err (as_dict (get_or feature_params ''dragonfly_corrugations'' (Dct []))) (\<lambda>params.
        bind_err (as_num (get_or operating_conditions ''reynolds_number'' (Num (F 200000))))
          (\<lambda>reynolds.
        let velocity = get_or operating_conditions ''velocity'' (Num (F 10.0)) in
        bind_err (dragonfly_estimate_noise_reduction (current_noise st) params reynolds velocity)
          (\<lambda>result.
        record_reduction ''dragonfly_corrugations'' result st)))
      else Inr st)"

fun reduction_loop ::
  "pydict \<Rightarrow> pydict \<Rightarrow> string list \<Rightarrow> reduction_state \<Rightarrow> error + reduction_state" where
  "reduction_loop feature_params operating_conditions [] st = Inr st"
| "reduction_loop feature_params operating_conditions (feature # features) st =
     bind_err (reduction_step feature_params operating_conditions feature st)
       (reduction_loop feature_params operating_conditions features)"

definition estimate_combined_noise_reduction ::
  "pynum \<Rightarrow> string list \<Rightarrow> pydict \<Rightarrow> pydict \<Rightarrow> error + pydict" where
  "estimate_combined_noise_reduction baseline_noise_db features feature_params
       operating_conditions =
     bind_err (reduction_loop feature_params operating_conditions features
                 \<lparr>total_reduction = F 0.0, individual_reductions = [],
                  current_noise = baseline_noise_db\<rparr>) (\<lambda>st.
     let interaction_factor = F 1.0 + F 0.18 * (F (real (length features)) - F 1);
         effective_reduction =
           (if 1 < length features then total_reduction st * interaction_factor
            else total_reduction st);
         final_noise = baseline_noise_db - effective_reduction in
     bind_err (py_div effective_reduction baseline_noise_db) (\<lambda>q.
     Inr [(''total_reduction_db'', Num effective_reduction),
          (''final_noise_db'', Num final_noise),
          (''individual_reductions'', Dct (individual_reductions st)),
          (''interaction_factor'',
             Num (if 1 < length features then interaction_factor else F 1.0)),
          (''reduction_percentage'', Num (q * F 100))]))"

section \<open>The combined reduction as the specification words it\<close>

text \<open>
  The \<open>reduce\<close> operation of a named feature at a noise level, with the parameters and
  conditions the composer hands to it; a name that is none of the three features has no
  \<open>reduce\<close>.
\<close>

definition feature_reduce :: "pydict \<Rightarrow> pydict \<Rightarrow> string \<Rightarrow> pynum \<Rightarrow> (error + pydict) option" where
  "feature_reduce feature_params operating_conditions feature level =
     (if feature = ''owl_serrations'' then Some (
        bind_err (as_dict (get_or feature_params ''owl_serrations'' (Dct []))) (\<lambda>params.
        bind_err (as_num (get_or operating_conditions ''frequency_hz'' (Num (F 1000)))) (\<lambda>freq.
        owl_estimate_noise_reduction level params freq
          (get_or operating_conditions ''velocity'' (Num (F 10.0))))))
      else if feature = ''humpback_tubercles'' then Some (
        bind_err (as_dict (get_or feature_params ''humpback_tubercles'' (Dct []))) (\<lambda>params.
        humpback_estimate_noise_reduction level params operating_conditions))
      else if feature = ''dragonfly_corrugations'' then Some (
        bind_err (as_dict (get_or feature_params ''dragonfly_corrugations'' (Dct []))) (\<lambda>params.
        bind_err (as_num (get_or operating_conditions ''reynolds_number'' (Num (F 200000))))
          (\<lambda>reynolds.
        dragonfly_estimate_noise_reduction level params reynolds
          (get_or operating_conditions ''velocity'' (Num (F 10.0))))))
      else None)"

text \<open>
  The features are taken in the order of the list; feature \<open>i\<close> is reduced at the level
  left after the reduction of feature \<open>i - 1\<close> was subtracted. The result lists each
  applied name with its reduction.
\<close>

fun sequential_reductions ::
  "pydict \<Rightarrow> pydict \<Rightarrow> string list \<Rightarrow> pynum \<Rightarrow> error + (string \<times> pynum) list" where
  "sequential_reductions feature_params operating_conditions [] level = Inr []"
| "sequential_reductions feature_params operating_conditions (feature # features) level =
     (case feature_reduce feature_params operating_conditions feature level of
        None \<Rightarrow> sequential_reductions feature_params operating_conditions features level
      | Some outcome \<Rightarrow>
          bind_err outcome (\<lambda>result.
          bind_err (item_num result ''noise_reduction_db'') (\<lambda>reduction.
          bind_err (sequential_reductions feature_params operating_conditions features
                      (level - reduction)) (\<lambda>rest.
          Inr ((feature, reduction) # rest)))))"

definition synergy_multiplier :: "nat \<Rightarrow> pynum" where
  "synergy_multiplier k = (if k \<le> 1 then F 1.0 else F 1.0 + F 0.18 * (F (real k) - F 1))"

definition summed_reduction :: "(string \<times> pynum) list \<Rightarrow> pynum" where
  "summed_reduction rs = foldl (+) (F 0.0) (map snd rs)"

definition reductions_by_name :: "(string \<times> pynum) list \<Rightarrow> pydict" where
  "reductions_by_name rs = foldl (\<lambda>d (feature, reduction). set_item d feature (Num reduction)) [] rs"

definition combined_reduction_spec ::
  "pynum \<Rightarrow> string list \<Rightarrow> pydict \<Rightarrow> pydict \<Rightarrow> error + pydict" where
  "combined_reduction_spec baseline_noise_db features feature_params operating_conditions =
     bind_err (sequential_reductions feature_params operating_conditions features
                 baseline_noise_db) (\<lambda>rs.
     let effective_reduction = summed_reduction rs * synergy_multiplier (length features);
         final_noise = baseline_noise_db - effective_reduction in
     bind_err (py_div effective_reduction baseline_noise_db) (\<lambda>q.
     Inr [(''total_reduction_db'', Num effective_reduction),
          (''final_noise_db'', Num final_noise),
          (''individual_reductions'', Dct (reductions_by_name rs)),
          (''interaction_factor'', Num (synergy_multiplier (length features))),
          (''reduction_percentage'', Num (q * F 100))]))"

text \<open>The state of the loop after the reductions \<open>rs\<close> have been recorded.\<close>

definition apply_reductions :: "reduction_state \<Rightarrow> (string \<times> pynum) list \<Rightarrow> reduction_state" where
  "apply_reductions st rs =
     \<lparr>total_reduction = foldl (+) (total_reduction st) (map snd rs),
      individual_reductions =
        foldl (\<lambda>d (feature, reduction). set_item d feature (Num reduction))
          (individual_reductions st) rs,
      current_noise = foldl (-) (current_noise st) (map snd rs)\<rparr>"

section \<open>Geometry of the features and their application to a blade (bio\_inspired)\<close>

text \<open>
  A configuration argument is \<open>None\<close> in Python or a value; the geometry record and the
  parameter records are dictionaries. These functions give the contents of the returned
  dictionary from the contents of the argument; the functions on the store further down
  follow the same statements with the identity of each dictionary made explicit.
\<close>

definition calculate_serration_geometry ::
  "pynum \<Rightarrow> pynum \<Rightarrow> pynum \<Rightarrow> pynum option \<Rightarrow> error + pydict" where
  "calculate_serration_geometry chord_length serration_depth_ratio serration_wavelength_ratio
       num_serrations =
     (let depth = chord_length * serration_depth_ratio;
          wavelength = chord_length * serration_wavelength_ratio in
      bind_err (case num_serrations of
                  None \<Rightarrow> bind_err (py_div (F 0.5 * chord_length) wavelength) py_int
                | Some n \<Rightarrow> Inr n) (\<lambda>num_serrations.
      bind_err (py_div depth (divc wavelength 2)) (\<lambda>slope.
      let serration_angle = np_arctan slope;
          serration_angle_deg = np_degrees serration_angle in
      Inr [(''depth_m'', Num depth),
           (''wavelength_m'', Num wavelength),
           (''num_serrations'', Num num_serrations),
           (''angle_deg'', Num serration_angle_deg),
           (''depth_ratio'', Num serration_depth_ratio),
           (''wavelength_ratio'', Num serration_wavelength_ratio)])))"

definition owl_apply_to_blade_design :: "pydict \<Rightarrow> pyval option \<Rightarrow> error + pydict" where
  "owl_apply_to_blade_design blade_geometry serration_config =
     (let chord_length = get_or blade_geometry ''chord_length'' (Num (F 0.05)) in
      bind_err (case serration_config of
                  None \<Rightarrow> bind_err (as_num chord_length) (\<lambda>c.
                            bind_err (calculate_serration_geometry c (F 0.05) (F 0.02) None)
                              (\<lambda>p. Inr (Dct p)))
                | Some config \<Rightarrow> Inr config) (\<lambda>serration_params.
      let modified_geometry = blade_geometry;
          modified_geometry =
            set_item modified_geometry ''trailing_edge_serrations'' serration_params;
          modified_geometry =
            set_item modified_geometry ''bio_inspired_feature'' (Str ''owl_wing_serrations'');
          base_drag_coeff = get_or blade_geometry ''drag_coefficient'' (Num (F 0.02)) in
      bind_err (as_dict serration_params) (\<lambda>params.
      bind_err (item_num params ''depth_ratio'') (\<lambda>depth_ratio.
      let serration_drag_penalty = F 0.02 + F 0.03 * divc depth_ratio 0.1 in
      bind_err (as_num base_drag_coeff) (\<lambda>base_drag.
      Inr (set_item modified_geometry ''drag_coefficient''
             (Num (base_drag * (F 1 + serration_drag_penalty)))))))))"

definition calculate_tubercle_geometry ::
  "pynum \<Rightarrow> pynum \<Rightarrow> pynum \<Rightarrow> pynum option \<Rightarrow> error + pydict" where
  "calculate_tubercle_geometry blade_span amplitude_ratio wavelength_ratio num_tubercles =
     (let wavelength = blade_span * wavelength_ratio in
      bind_err (case num_tubercles of
                  None \<Rightarrow> bind_err (py_div blade_span wavelength) (\<lambda>q.
                            bind_err (py_int q) (\<lambda>n. Inr (py_max (F 3) n)))
                | Some n \<Rightarrow> Inr n) (\<lambda>num_tubercles.
      bind_err (py_div blade_span num_tubercles) (\<lambda>wavelength.
      bind_err (py_div wavelength blade_span) (\<lambda>ratio.
      Inr [(''num_tubercles'', Num num_tubercles),
           (''wavelength_m'', Num wavelength),
           (''amplitude_ratio'', Num amplitude_ratio),
           (''wavelength_ratio'', Num ratio),
           (''span_m'', Num blade_span)]))))"

definition humpback_apply_to_blade_design :: "pydict \<Rightarrow> pyval option \<Rightarrow> error + pydict" where
  "humpback_apply_to_blade_design blade_geometry tubercle_config =
     (let blade_span = get_or blade_geometry ''radius'' (Num (F 0.127)) in
      bind_err (case tubercle_config of
                  None \<Rightarrow> bind_err (as_num blade_span) (\<lambda>s.
                            bind_err (calculate_tubercle_geometry s (F 0.12) (F 0.25) None)
                              (\<lambda>p. Inr (Dct p)))
                | Some config \<Rightarrow> Inr config) (\<lambda>tubercle_params.
      let modified_geometry = blade_geometry;
          modified_geometry = set_item modified_geometry ''leading_edge_tubercles'' tubercle_params;
          modified_geometry =
            set_item modified_geometry ''bio_inspired_feature'' (Str ''humpback_whale_tubercles'');
          base_cl_max = get_or blade_geometry ''cl_max'' (Num (F 1.2)) in
      bind_err (as_num base_cl_max) (\<lambda>cl_max.
      let modified_geometry = set_item modified_geometry ''cl_max'' (Num (cl_max * F 1.075));
          base_drag_coeff = get_or blade_geometry ''drag_coefficient'' (Num (F 0.02));
          drag_penalty = F 0.025 in
      bind_err (as_num base_drag_coeff) (\<lambda>base_drag.
      let modified_geometry =
            set_item modified_geometry ''drag_coefficient'' (Num (base_drag * (F 1 + drag_penalty)));
          base_stall_angle = get_or blade_geometry ''stall_angle_deg'' (Num (F 12.0)) in
      bind_err (as_num base_stall_angle) (\<lambda>stall.
      Inr (set_item modified_geometry ''stall_angle_deg'' (Num (stall + F 2.0))))))))"

definition calculate_corrugation_geometry ::
  "pynum \<Rightarrow> pynum \<Rightarrow> pynum \<Rightarrow> pynum option \<Rightarrow> error + pydict" where
  "calculate_corrugation_geometry chord_length corrugation_depth_ratio
       corrugation_wavelength_ratio num_corrugations =
     (let depth = chord_length * corrugation_depth_ratio;
          wavelength = chord_length * corrugation_wavelength_ratio in
      bind_err (case num_corrugations of
                  None \<Rightarrow> bind_err (py_div chord_length wavelength) (\<lambda>q.
                            bind_err (py_int q) (\<lambda>n. Inr (py_max n (F 3))))
                | Some n \<Rightarrow> Inr n) (\<lambda>num_corrugations.
      bind_err (py_div (F 2 * depth) wavelength) (\<lambda>slope.
      let profile_angle = np_arctan slope;
          profile_angle_deg = np_degrees profile_angle in
      Inr [(''depth_m'', Num depth),
           (''wavelength_m'', Num wavelength),
           (''num_corrugations'', Num num_corrugations),
           (''profile_angle_deg'', Num profile_angle_deg),
           (''depth_ratio'', Num corrugation_depth_ratio),
           (''wavelength_ratio'', Num corrugation_wavelength_ratio)])))"

definition estimate_structural_benefits :: "pydict \<Rightarrow> pyval \<Rightarrow> error + pydict" where
  "estimate_structural_benefits corrugation_params blade_material =
     bind_err (item corrugation_params ''depth_m'') (\<lambda>depth_v.
     bind_err (item corrugation_params ''wavelength_m'') (\<lambda>wavelength_v.
     bind_err (as_num depth_v) (\<lambda>depth.
     bind_err (as_num wavelength_v) (\<lambda>wavelength.
     bind_err (py_div depth wavelength) (\<lambda>depth_wavelength_ratio.
     bind_err (pow_int depth_wavelength_ratio 2) (\<lambda>ratio_squared.
     let moment_area_factor = F 1.0 + ratio_squared;
         stiffness_increase_percentage = (moment_area_factor - F 1.0) * F 100;
         torsional_increase_percentage = stiffness_increase_percentage * F 0.5;
         frequency_increase_percentage = (np_sqrt moment_area_factor - F 1.0) * F 100 in
     Inr [(''stiffness_increase_percentage'', Num stiffness_increase_percentage),
          (''torsional_stiffness_increase_percentage'', Num torsional_increase_percentage),
          (''natural_frequency_increase_percentage'', Num frequency_increase_percentage),
          (''moment_area_factor'', Num moment_area_factor),
          (''flutter_resistance_improvement'',
             Str (if F 20 < stiffness_increase_percentage then ''high'' else ''moderate''))]))))))"

definition dragonfly_apply_to_blade_design :: "pydict \<Rightarrow> pyval option \<Rightarrow> error + pydict" where
  "dragonfly_apply_to_blade_design blade_geometry corrugation_config =
     (let chord_length = get_or blade_geometry ''chord_length'' (Num (F 0.05)) in
      bind_err (case corrugation_config of
                  None \<Rightarrow> bind_err (as_num chord_length) (\<lambda>c.
                            bind_err (calculate_corrugation_geometry c (F 0.03) (F 0.05) None)
                              (\<lambda>p. Inr (Dct p)))
                | Some config \<Rightarrow> Inr config) (\<lambda>corrugation_params.
      let modified_geometry = blade_geometry;
          modified_geometry = set_item modified_geometry ''surface_corrugations'' corrugation_params;
          modified_geometry =
            set_item modified_geometry ''bio_inspired_feature'' (Str ''dragonfly_corrugations'');
          material_props = get_or blade_geometry ''material_properties'' (Dct []) in
      bind_err (as_dict corrugation_params) (\<lambda>params.
      bind_err (estimate_structural_benefits params material_props) (\<lambda>structural_benefits.
      let modified_geometry =
            set_item modified_geometry ''structural_improvements'' (Dct structural_benefits);
          base_drag_coeff = get_or blade_geometry ''drag_coefficient'' (Num (F 0.02));
          drag_penalty = F 0.04 in
      bind_err (as_num base_drag_coeff) (\<lambda>base_drag.
      let modified_geometry =
            set_item modified_geometry ''drag_coefficient'' (Num (base_drag * (F 1 + drag_penalty)));
          base_cl_max = get_or blade_geometry ''cl_max'' (Num (F 1.2)) in
      bind_err (as_num base_cl_max) (\<lambda>cl_max.
      Inr (set_item modified_geometry ''cl_max'' (Num (cl_max * F 1.05)))))))))"

section \<open>Composition of features (BioInspiredDesignFactory.create\_design)\<close>

definition create_design :: "pydict \<Rightarrow> string list \<Rightarrow> pydict option \<Rightarrow> error + pydict" where
  "create_design base_geometry features custom_configs =
     (let modified_geometry = base_geometry;
          custom_configs = (case custom_configs of None \<Rightarrow> [] | Some c \<Rightarrow> c);
          applied_features = [] in
      bind_err (if ''owl_serrations'' \<in> set features then
                  bind_err (owl_apply_to_blade_design modified_geometry
                              (map_of custom_configs ''owl_serrations'')) (\<lambda>g.
                  Inr (g, applied_features @ [Str ''owl_serrations'']))
                else Inr (modified_geometry, applied_features))
        (\<lambda>(modified_geometry, applied_features).
      bind_err (if ''humpback_tubercles'' \<in> set features then
                  bind_err (humpback_apply_to_blade_design modified_geometry
                              (map_of custom_configs ''humpback_tubercles'')) (\<lambda>g.
                  Inr (g, applied_features @ [Str ''humpback_tubercles'']))
                else Inr (modified_geometry, applied_features))
        (\<lambda>(modified_geometry, applied_features).
      bind_err (if ''dragonfly_corrugations'' \<in> set features then
                  bind_err (dragonfly_apply_to_blade_design modified_geometry
                              (map_of custom_configs ''dragonfly_corrugations'')) (\<lambda>g.
                  Inr (g, applied_features @ [Str ''dragonfly_corrugations'']))
                else Inr (modified_geometry, applied_features))
        (\<lambda>(modified_geometry, applied_features).
      Inr (set_item modified_geometry ''bio_inspired_features'' (Lst applied_features))))))"

section \<open>The feature applications on a store\<close>

text \<open>
  Python passes dictionaries by reference. The store is the list of the dictionaries
  that exist; a reference is a position in it. \<open>d.copy()\<close> adds a dictionary with the
  same entries at the end of the store and returns its position, \<open>d[k] = v\<close> changes the
  dictionary at the position of \<open>d\<close>. Each function returns the store it leaves behind,
  also when it raises.
\<close>

type_synonym heap = "pydict list"

definition heap_copy :: "heap \<Rightarrow> nat \<Rightarrow> heap \<times> nat" where
  "heap_copy h d = (h @ [h ! d], length h)"

definition heap_store :: "heap \<Rightarrow> nat \<Rightarrow> string \<Rightarrow> pyval \<Rightarrow> heap" where
  "heap_store h d k v = h[d := set_item (h ! d) k v]"

definition heap_get :: "heap \<Rightarrow> nat \<Rightarrow> string \<Rightarrow> pyval \<Rightarrow> pyval" where
  "heap_get h d k dflt = get_or (h ! d) k dflt"

definition owl_apply_to_blade_design_heap ::
  "heap \<Rightarrow> nat \<Rightarrow> pyval option \<Rightarrow> heap \<times> (error + nat)" where
  "owl_apply_to_blade_design_heap h blade_geometry serration_config =
     (let chord_length = heap_get h blade_geometry ''chord_length'' (Num (F 0.05)) in
      case (case serration_config of
              None \<Rightarrow> bind_err (as_num chord_length) (\<lambda>c.
                        bind_err (calculate_serration_geometry c (F 0.05) (F 0.02) None)
                          (\<lambda>p. Inr (Dct p)))
            | Some config \<Rightarrow> Inr config) of
        Inl e \<Rightarrow> (h, Inl e)
      | Inr serration_params \<Rightarrow>
          let (h, modified_geometry) = heap_copy h blade_geometry;
              h = heap_store h modified_geometry ''trailing_edge_serrations'' serration_params;
              h = heap_store h modified_geometry ''bio_inspired_feature''
                    (Str ''owl_wing_serrations'');
              base_drag_coeff = heap_get h blade_geometry ''drag_coefficient'' (Num (F 0.02)) in
          case bind_err (as_dict serration_params) (\<lambda>params.
               bind_err (item_num params ''depth_ratio'') (\<lambda>depth_ratio.
               let serration_drag_penalty = F 0.02 + F 0.03 * divc depth_ratio 0.1 in
               bind_err (as_num base_drag_coeff) (\<lambda>base_drag.
               Inr (Num (base_drag * (F 1 + serration_drag_penalty)))))) of
            Inl e \<Rightarrow> (h, Inl e)
          | Inr drag \<Rightarrow>
              (heap_store h modified_geometry ''drag_coefficient'' drag, Inr modified_geometry))"

definition humpback_apply_to_blade_design_heap ::
  "heap \<Rightarrow> nat \<Rightarrow> pyval option \<Rightarrow> heap \<times> (error + nat)" where
  "humpback_apply_to_blade_design_heap h blade_geometry tubercle_config =
     (let blade_span = heap_get h blade_geometry ''radius'' (Num (F 0.127)) in
      case (case tubercle_config of
              None \<Rightarrow> bind_err (as_num blade_span) (\<lambda>s.
                        bind_err (calculate_tubercle_geometry s (F 0.12) (F 0.25) None)
                          (\<lambda>p. Inr (Dct p)))
            | Some config \<Rightarrow> Inr config) of
        Inl e \<Rightarrow> (h, Inl e)
      | Inr tubercle_params \<Rightarrow>
          let (h, modified_geometry) = heap_copy h blade_geometry;
              h = heap_store h modified_geometry ''leading_edge_tubercles'' tubercle_params;
              h = heap_store h modified_geometry ''bio_inspired_feature''
                    (Str ''humpback_whale_tubercles'');
              base_cl_max = heap_get h blade_geometry ''cl_max'' (Num (F 1.2)) in
          case as_num base_cl_max of
            Inl e \<Rightarrow> (h, Inl e)
          | Inr cl_max \<Rightarrow>
              let h = heap_store h modified_geometry ''cl_max'' (Num (cl_max * F 1.075));
                  base_drag_coeff = heap_get h blade_geometry ''drag_coefficient'' (Num (F 0.02));
                  drag_penalty = F 0.025 in
              case as_num base_drag_coeff of
                Inl e \<Rightarrow> (h, Inl e)
              | Inr base_drag \<Rightarrow>
                  let h = heap_store h modified_geometry ''drag_coefficient''
                            (Num (base_drag * (F 1 + drag_penalty)));
                      base_stall_angle =
                        heap_get h blade_geometry ''stall_angle_deg'' (Num (F 12.0)) in
                  case as_num base_stall_angle of
                    Inl e \<Rightarrow> (h, Inl e)
                  | Inr stall \<Rightarrow>
                      (heap_store h modified_geometry ''stall_angle_deg'' (Num (stall + F 2.0)),
                       Inr modified_geometry))"

definition dragonfly_apply_to_blade_design_heap ::
  "heap \<Rightarrow> nat \<Rightarrow> pyval option \<Rightarrow> heap \<times> (error + nat)" where
  "dragonfly_apply_to_blade_design_heap h blade_geometry corrugation_config =
     (let chord_length = heap_get h blade_geometry ''chord_length'' (Num (F 0.05)) in
      case (case corrugation_config of
              None \<Rightarrow> bind_err (as_num chord_length) (\<lambda>c.
                        bind_err (calculate_corrugation_geometry c (F 0.03) (F 0.05) None)
                          (\<lambda>p. Inr (Dct p)))
            | Some config \<Rightarrow> Inr config) of
        Inl e \<Rightarrow> (h, Inl e)
      | Inr corrugation_params \<Rightarrow>
          let (h, modified_geometry) = heap_copy h blade_geometry;
              h = heap_store h modified_geometry ''surface_corrugations'' corrugation_params;
              h = heap_store h modified_geometry ''bio_inspired_feature''
                    (Str ''dragonfly_corrugations'');
              material_props = heap_get h blade_geometry ''material_properties'' (Dct []) in
          case bind_err (as_dict corrugation_params) (\<lambda>params.
               estimate_structural_benefits params material_props) of
            Inl e \<Rightarrow> (h, Inl e)
          | Inr structural_benefits \<Rightarrow>
              let h = heap_store h modified_geometry ''structural_improvements''
                        (Dct structural_benefits);
                  base_drag_coeff = heap_get h blade_geometry ''drag_coefficient'' (Num (F 0.02));
                  drag_penalty = F 0.04 in
              case as_num base_drag_coeff of
                Inl e \<Rightarrow> (h, Inl e)
              | Inr base_drag \<Rightarrow>
                  let h = heap_store h modified_geometry ''drag_coefficient''
                            (Num (base_drag * (F 1 + drag_penalty)));
                      base_cl_max = heap_get h blade_geometry ''cl_max'' (Num (F 1.2)) in
                  case as_num base_cl_max of
                    Inl e \<Rightarrow> (h, Inl e)
                  | Inr cl_max \<Rightarrow>
                      (heap_store h modified_geometry ''cl_max'' (Num (cl_max * F 1.05)),
                       Inr modified_geometry))"

section \<open>The composition as the specification words it\<close>

definition declaration_order :: "string list" where
  "declaration_order = [''owl_serrations'', ''humpback_tubercles'', ''dragonfly_corrugations'']"

text \<open>The \<open>apply\<close> operation of a named feature.\<close>

definition feature_apply :: "string \<Rightarrow> pydict \<Rightarrow> pyval option \<Rightarrow> error + pydict" where
  "feature_apply feature geometry config =
     (if feature = ''owl_serrations'' then owl_apply_to_blade_design geometry config
      else if feature = ''humpback_tubercles'' then humpback_apply_to_blade_design geometry config
      else dragonfly_apply_to_blade_design geometry config)"

fun apply_in_order :: "pydict \<Rightarrow> string list \<Rightarrow> pydict \<Rightarrow> error + pydict" where
  "apply_in_order configs [] geometry = Inr geometry"
| "apply_in_order configs (feature # features) geometry =
     bind_err (feature_apply feature geometry (map_of configs feature))
       (apply_in_order configs features)"

text \<open>
  The features of the declaration order that are named in the list are applied in the
  declaration order, and their names are recorded on the result.
\<close>

definition compose_spec :: "pydict \<Rightarrow> string list \<Rightarrow> pydict option \<Rightarrow> error + pydict" where
  "compose_spec base_geometry feature_names configs =
     (let active = filter (\<lambda>name. name \<in> set feature_names) declaration_order in
      bind_err (apply_in_order (case configs of None \<Rightarrow> [] | Some c \<Rightarrow> c) active base_geometry)
        (\<lambda>geometry.
      Inr (set_item geometry ''bio_inspired_features'' (Lst (map Str active)))))"

section \<open>Noise model (aeroacoustics/noise\_analysis.py)\<close>

text \<open>The analyzer object holds the reference pressure; it is the first argument here.\<close>

definition calculate_spl :: "pynum \<Rightarrow> pynum \<Rightarrow> pynum \<Rightarrow> error + pynum" where
  "calculate_spl reference_pressure pressure distance =
     (if pressure \<le> F 0 then Inr (F 0.0)
      else bind_err (py_div pressure distance) (\<lambda>adjusted_pressure.
           bind_err (py_div adjusted_pressure reference_pressure) (\<lambda>ratio.
           Inr (F 20 * np_log10 ratio))))"

definition calculate_broadband_noise ::
  "pynum \<Rightarrow> pynum \<Rightarrow> pynum \<Rightarrow> pynum \<Rightarrow> pynum \<Rightarrow> pynum \<Rightarrow> error + pynum" where
  "calculate_broadband_noise reference_pressure velocity chord_length blade_thickness
       angle_of_attack distance =
     bind_err (pow_frac velocity 5.5) (\<lambda>velocity_term.
     let area_term = chord_length * blade_thickness;
         aoa_factor = F 1.0 + divc (F 0.5 * np_abs angle_of_attack) 15.0 in
     bind_err (pow_int distance 2) (\<lambda>distance_squared.
     bind_err (py_div (F 0.001 * velocity_term * area_term * aoa_factor) distance_squared)
       (\<lambda>pressure_rms.
     calculate_spl reference_pressure pressure_rms distance)))"

text \<open>The decimal digits of a number, for the keys \<open>BPF_harmonic_h\<close> and
  \<open>frequency_hz_h\<close>.\<close>

definition digit_char :: "nat \<Rightarrow> char" where
  "digit_char d = ''0123456789'' ! d"

function digits :: "nat \<Rightarrow> string" where
  "digits n = (if n < 10 then [digit_char n] else digits (n div 10) @ [digit_char (n mod 10)])"
  by pat_completeness auto
termination
  by (relation "measure id") auto

declare digits.simps [simp del]

fun tonal_loop ::
  "pynum \<Rightarrow> pynum \<Rightarrow> pynum \<Rightarrow> pynum \<Rightarrow> pynum \<Rightarrow> nat list \<Rightarrow> pydict \<Rightarrow> error + pydict" where
  "tonal_loop reference_pressure bpf num_blades tip_speed distance [] results = Inr results"
| "tonal_loop reference_pressure bpf num_blades tip_speed distance (h # hs) results =
     (let freq = bpf * F (real h) in
      bind_err (pow_int tip_speed 4) (\<lambda>tip_speed_term.
      bind_err (pow_frac (F (real h)) 1.5) (\<lambda>h_term.
      bind_err (pow_int distance 2) (\<lambda>distance_squared.
      bind_err (py_div (F 0.005 * tip_speed_term * divc num_blades 2.0)
                  (h_term * distance_squared)) (\<lambda>pressure_rms.
      bind_err (calculate_spl reference_pressure pressure_rms distance) (\<lambda>spl.
      tonal_loop reference_pressure bpf num_blades tip_speed distance hs
        (set_item (set_item results (''BPF_harmonic_'' @ digits h) (Num spl))
           (''frequency_hz_'' @ digits h) (Num freq))))))))"

definition calculate_tonal_noise ::
  "pynum \<Rightarrow> pynum \<Rightarrow> pynum \<Rightarrow> pynum \<Rightarrow> pynum \<Rightarrow> int \<Rightarrow> error + pydict" where
  "calculate_tonal_noise reference_pressure rpm num_blades tip_speed distance harmonics =
     (let bpf = divc rpm 60.0 * num_blades in
      tonal_loop reference_pressure bpf num_blades tip_speed distance
        (map nat [1..harmonics]) [])"

definition calculate_vortex_noise ::
  "pynum \<Rightarrow> pynum \<Rightarrow> pynum \<Rightarrow> pynum \<Rightarrow> pynum \<Rightarrow> error + pynum \<times> pynum" where
  "calculate_vortex_noise reference_pressure velocity diameter strouhal_number distance =
     bind_err (py_div (strouhal_number * velocity) diameter) (\<lambda>vortex_freq.
     bind_err (pow_int velocity 3) (\<lambda>velocity_cubed.
     bind_err (pow_int distance 2) (\<lambda>distance_squared.
     bind_err (py_div (F 0.0008 * velocity_cubed * diameter) distance_squared)
       (\<lambda>pressure_rms.
     bind_err (calculate_spl reference_pressure pressure_rms distance) (\<lambda>spl.
     Inr (vortex_freq, spl))))))"

text \<open>The energy summation of \<open>calculate_total_noise\<close>: the three levels become
  pressures, the pressures are added in squares, the sum becomes a level again.\<close>

definition energy_summation :: "pynum \<Rightarrow> pynum \<Rightarrow> pynum \<Rightarrow> pynum \<Rightarrow> error + pynum" where
  "energy_summation reference_pressure broadband_spl tonal_spl_primary vortex_spl =
     bind_err (ten_pow (divc broadband_spl 20.0)) (\<lambda>broadband_factor.
     let p_broadband = reference_pressure * broadband_factor in
     bind_err (ten_pow (divc tonal_spl_primary 20.0)) (\<lambda>tonal_factor.
     let p_tonal = reference_pressure * tonal_factor in
     bind_err (ten_pow (divc vortex_spl 20.0)) (\<lambda>vortex_factor.
     let p_vortex = reference_pressure * vortex_factor in
     bind_err (pow_int p_broadband 2) (\<lambda>broadband_sq.
     bind_err (pow_int p_tonal 2) (\<lambda>tonal_sq.
     bind_err (pow_int p_vortex 2) (\<lambda>vortex_sq.
     let p_total = np_sqrt (broadband_sq + tonal_sq + vortex_sq) in
     bind_err (py_div p_total reference_pressure) (\<lambda>ratio.
     Inr (F 20 * np_log10 ratio))))))))"

definition calculate_total_noise :: "pynum \<Rightarrow> pydict \<Rightarrow> pydict \<Rightarrow> pynum \<Rightarrow> error + pydict" where
  "calculate_total_noise reference_pressure propeller_params operating_conditions distance =
     (let rpm = get_or operating_conditions ''rpm'' (Num (F 5000));
          velocity = get_or operating_conditions ''velocity'' (Num (F 10.0));
          chord = get_or propeller_params ''chord_length'' (Num (F 0.05));
          thickness = get_or propeller_params ''blade_thickness'' (Num (F 0.005));
          num_blades = get_or propeller_params ''num_blades'' (Num (F 2));
          radius = get_or propeller_params ''radius'' (Num (F 0.127));
          aoa = get_or propeller_params ''angle_of_attack'' (Num (F 5.0)) in
      bind_err (as_num rpm) (\<lambda>rpm.
      bind_err (as_num radius) (\<lambda>radius.
      let tip_speed = divc rpm 60.0 * F 2 * np_pi * radius in
      bind_err (as_num velocity) (\<lambda>velocity.
      bind_err (as_num chord) (\<lambda>chord.
      bind_err (as_num thickness) (\<lambda>thickness.
      bind_err (as_num aoa) (\<lambda>aoa.
      bind_err (calculate_broadband_noise reference_pressure velocity chord thickness aoa
                  distance) (\<lambda>broadband_spl.
      bind_err (as_num num_blades) (\<lambda>num_blades.
      bind_err (calculate_tonal_noise reference_pressure rpm num_blades tip_speed distance 3)
        (\<lambda>tonal_results.
      bind_err (calculate_vortex_noise reference_pressure velocity thickness (F 0.2) distance)
        (\<lambda>(vortex_freq, vortex_spl).
      bind_err (as_num (get_or tonal_results ''BPF_harmonic_1'' (Num (F 0))))
        (\<lambda>tonal_spl_primary.
      bind_err (energy_summation reference_pressure broadband_spl tonal_spl_primary vortex_spl)
        (\<lambda>total_spl.
      Inr (foldl (\<lambda>d (k, v). set_item d k v)
             [(''total_spl_db'', Num total_spl),
              (''broadband_spl_db'', Num broadband_spl),
              (''tonal_spl_db'', Num tonal_spl_primary),
              (''vortex_spl_db'', Num vortex_spl),
              (''vortex_frequency_hz'', Num vortex_freq)]
             tonal_results))))))))))))))"

section \<open>Weighted noise metric (AeroacousticMetrics.calculate\_weighted\_noise\_metric)\<close>

fun starts_with :: "string \<Rightarrow> string \<Rightarrow> bool" where
  "starts_with [] s = True"
| "starts_with (p # ps) [] = False"
| "starts_with (p # ps) (c # cs) = (p = c \<and> starts_with ps cs)"

text \<open>\<open>p in s\<close> for two strings.\<close>

fun str_contains :: "string \<Rightarrow> string \<Rightarrow> bool" where
  "str_contains p [] = (p = [])"
| "str_contains p (c # cs) = (starts_with p (c # cs) \<or> str_contains p cs)"

fun weighted_loop :: "pydict \<Rightarrow> pynum \<Rightarrow> pydict \<Rightarrow> pynum \<Rightarrow> error + pynum" where
  "weighted_loop frequency_weights p_ref [] total_weighted_pressure_sq =
     Inr total_weighted_pressure_sq"
| "weighted_loop frequency_weights p_ref ((freq_key, spl) # entries) total_weighted_pressure_sq =
     (if str_contains ''frequency_hz'' freq_key then
        weighted_loop frequency_weights p_ref entries total_weighted_pressure_sq
      else
        let weight = get_or frequency_weights freq_key (Num (F 1.0)) in
        bind_err (as_num spl) (\<lambda>spl.
        bind_err (ten_pow (divc spl 20.0)) (\<lambda>factor.
        let pressure = p_ref * factor in
        bind_err (as_num weight) (\<lambda>weight.
        bind_err (pow_int (weight * pressure) 2) (\<lambda>weighted_sq.
        weighted_loop frequency_weights p_ref entries
          (total_weighted_pressure_sq + weighted_sq))))))"

definition calculate_weighted_noise_metric :: "pydict \<Rightarrow> pydict option \<Rightarrow> error + pynum" where
  "calculate_weighted_noise_metric noise_spectrum frequency_weights =
     (if noise_spectrum = [] then Inr (F 0.0)
      else
        let frequency_weights = (case frequency_weights of None \<Rightarrow> [] | Some w \<Rightarrow> w);
            p_ref = F 0.00002 in
        bind_err (weighted_loop frequency_weights p_ref noise_spectrum (F 0.0))
          (\<lambda>total_weighted_pressure_sq.
        if F 0 < total_weighted_pressure_sq then
          let total_pressure = np_sqrt total_weighted_pressure_sq in
          bind_err (py_div total_pressure p_ref) (\<lambda>ratio. Inr (F 20 * np_log10 ratio))
        else Inr (F 0.0)))"

section \<open>The weighted metric over real numbers\<close>

text \<open>A mapping from labels to Python floats, and the weighted energy of its level
  entries: every entry whose label does not contain \<open>frequency_hz\<close> contributes the
  square of its weight (1 when the weights give none) times \<open>10^(SPL/10)\<close>.\<close>

definition float_entries :: "(string \<times> real) list \<Rightarrow> pydict" where
  "float_entries kv = map (\<lambda>(k, x). (k, Num (F x))) kv"

definition spl_levels :: "(string \<times> real) list \<Rightarrow> real list" where
  "spl_levels kv = map snd (filter (\<lambda>(k, s). \<not> str_contains ''frequency_hz'' k) kv)"

definition weight_of :: "(string \<times> real) list \<Rightarrow> string \<Rightarrow> real" where
  "weight_of kw k = (case map_of kw k of None \<Rightarrow> 1 | Some w \<Rightarrow> w)"

definition weighted_energy :: "(string \<times> real) list \<Rightarrow> (string \<times> real) list \<Rightarrow> real" where
  "weighted_energy kw kv =
     sum_list (map (\<lambda>(k, s). (weight_of kw k)\<^sup>2 * 10 powr (s / 10))
       (filter (\<lambda>(k, s). \<not> str_contains ''frequency_hz'' k) kv))"

section \<open>Thrust model (aeroacoustics/thrust\_analysis.py)\<close>

text \<open>
  \<open>np.linspace(start, stop, num)\<close>: \<open>num\<close> numpy scalars from \<open>start\<close> in equal steps,
  the last one set to \<open>stop\<close>; a single point is \<open>start\<close>, a negative count raises
  ValueError.
\<close>

definition linspace :: "pynum \<Rightarrow> pynum \<Rightarrow> int \<Rightarrow> error + pynum list" where
  "linspace start stop num =
     (if num < 0 then Inl ValueError
      else if num = 1 then Inr [NpNum (val start)]
      else Inr (map (\<lambda>i. if int i = num - 1 then NpNum (val stop)
                         else NpNum (val start
                                + Fin (real i) * fdiv (val stop - val start) (Fin (real_of_int (num - 1)))))
                 [0 ..< nat num]))"

text \<open>\<open>xs[i]\<close> for a position that is not negative.\<close>

definition element :: "'a list \<Rightarrow> nat \<Rightarrow> error + 'a" where
  "element xs i = (if i < length xs then Inr (xs ! i) else Inl IndexError)"

text \<open>A \<open>for\<close> loop over a list whose body updates a state and may raise.\<close>

fun for_loop :: "('a \<Rightarrow> 's \<Rightarrow> error + 's) \<Rightarrow> 'a list \<Rightarrow> 's \<Rightarrow> error + 's" where
  "for_loop body [] s = Inr s"
| "for_loop body (x # xs) s = bind_err (body x s) (for_loop body xs)"

text \<open>The body of the loop over the blade elements; the state is the total thrust and
  the total torque. The calculator object holds the air density; it is the first argument
  of the functions.\<close>

definition blade_element_step ::
  "pynum \<Rightarrow> pynum \<Rightarrow> pynum \<Rightarrow> pynum \<Rightarrow> pynum \<Rightarrow> pynum \<Rightarrow> pynum \<Rightarrow> pynum \<Rightarrow> pynum \<Rightarrow> pynum
     \<Rightarrow> pynum \<times> pynum \<Rightarrow> error + pynum \<times> pynum" where
  "blade_element_step air_density omega radius chord_root chord_tip pitch_angle cl_slope dr
       num_blades r totals =
     (let chord = chord_root
            + (chord_tip - chord_root) * NpNum (fdiv (val r) (val radius));
          u_rot = omega * r;
          alpha = pitch_angle;
          cl = cl_slope * alpha in
      bind_err (pow_int u_rot 2) (\<lambda>u_rot_squared.
      let dT = F 0.5 * air_density * u_rot_squared * chord * cl * dr * num_blades in
      bind_err (pow_int alpha 2) (\<lambda>alpha_squared.
      let cd = F 0.01 + F 0.05 * alpha_squared in
      bind_err (pow_int u_rot 2) (\<lambda>u_rot_squared.
      let dQ = F 0.5 * air_density * u_rot_squared * chord * cd * r * dr * num_blades in
      Inr (fst totals + dT, snd totals + dQ)))))"

definition calculate_thrust_blade_element ::
  "pynum \<Rightarrow> pynum \<Rightarrow> pydict \<Rightarrow> pynum \<Rightarrow> int \<Rightarrow> error + pydict" where
  "calculate_thrust_blade_element air_density rpm blade_params num_blades num_elements =
     (let omega = divc (rpm * F 2 * np_pi) 60.0;
          radius = get_or blade_params ''radius'' (Num (F 0.127));
          chord_root = get_or blade_params ''chord_root'' (Num (F 0.03));
          chord_tip = get_or blade_params ''chord_tip'' (Num (F 0.015)) in
      bind_err (as_num (get_or blade_params ''pitch_angle'' (Num (F 10.0)))) (\<lambda>pitch_deg.
      let pitch_angle = divc (pitch_deg * np_pi) 180.0;
          cl_slope = get_or blade_params ''cl_slope'' (Num (F 2 * np_pi)) in
      bind_err (as_num radius) (\<lambda>radius.
      bind_err (linspace (F 0.2 * radius) radius num_elements) (\<lambda>r_elements.
      bind_err (element r_elements 1) (\<lambda>r1.
      bind_err (element r_elements 0) (\<lambda>r0.
      let dr = r1 - r0 in
      bind_err (as_num chord_tip) (\<lambda>chord_tip.
      bind_err (as_num chord_root) (\<lambda>chord_root.
      bind_err (as_num cl_slope) (\<lambda>cl_slope.
      bind_err (for_loop (blade_element_step air_density omega radius chord_root chord_tip
                            pitch_angle cl_slope dr num_blades)
                  r_elements (F 0.0, F 0.0)) (\<lambda>totals.
      let total_thrust = fst totals;
          total_torque = snd totals;
          power = total_torque * omega in
      bind_err (if F 0 < power then
                  bind_err (pow_int radius 2) (\<lambda>radius_squared.
                  bind_err (py_div total_thrust
                              (F 2 * air_density * np_pi * radius_squared)) (\<lambda>q.
                  let v_induced = np_sqrt q;
                      ideal_power = total_thrust * v_induced in
                  py_div ideal_power power))
                else Inr (F 0.0)) (\<lambda>efficiency.
      Inr [(''thrust_N'', Num total_thrust),
           (''torque_Nm'', Num total_torque),
           (''power_W'', Num power),
           (''efficiency'', Num (py_min efficiency (F 1.0)))])))))))))))"

definition calculate_figure_of_merit :: "pynum \<Rightarrow> pynum \<Rightarrow> pynum \<Rightarrow> pynum \<Rightarrow> error + pynum" where
  "calculate_figure_of_merit air_density thrust power_W radius =
     (if power_W \<le> F 0 then Inr (F 0.0)
      else
        bind_err (pow_int radius 2) (\<lambda>radius_squared.
        let disk_area = np_pi * radius_squared in
        bind_err (py_div thrust (F 2 * air_density * disk_area)) (\<lambda>q.
        let v_induced_ideal = np_sqrt q;
            ideal_power = thrust * v_induced_ideal in
        bind_err (py_div ideal_power power_W) (\<lambda>fm.
        Inr (py_min fm (F 1.0))))))"

section \<open>Design evaluator (optimization/design\_evaluator.py)\<close>

text \<open>
  The evaluator owns a noise analyser, a thrust calculator, a metrics calculator and a
  feature factory, all built with their default arguments: the reference pressure is
  2e-5 and the air density 1.225. The blade-element computation runs with its default of
  20 elements. The evaluation is a dictionary of dictionaries.
\<close>

definition evaluate_design :: "pydict \<Rightarrow> pydict \<Rightarrow> pynum option \<Rightarrow> error + pydict" where
  "evaluate_design propeller_geometry operating_conditions baseline_ntr =
     bind_err (calculate_total_noise (F 0.00002) propeller_geometry operating_conditions (F 1.0))
       (\<lambda>noise_results.
     let rpm = get_or operating_conditions ''rpm'' (Num (F 5000));
         blade_params =
           [(''radius'', get_or propeller_geometry ''radius_m'' (Num (F 0.127))),
            (''chord_root'', get_or propeller_geometry ''chord_root'' (Num (F 0.03))),
            (''chord_tip'', get_or propeller_geometry ''chord_tip'' (Num (F 0.015))),
            (''pitch_angle'', get_or propeller_geometry ''pitch_angle'' (Num (F 10.0))),
            (''cl_slope'', get_or propeller_geometry ''cl_slope'' (Num (F 2 * F 3.14159)))];
         num_blades = get_or propeller_geometry ''num_blades'' (Num (F 2)) in
     bind_err (as_num rpm) (\<lambda>rpm.
     bind_err (as_num num_blades) (\<lambda>num_blades.
     bind_err (calculate_thrust_blade_element (F 1.225) rpm blade_params num_blades 20)
       (\<lambda>thrust_results.
     bind_err (evaluate_design_performance noise_results thrust_results baseline_ntr)
       (\<lambda>performance_metrics.
     Inr [(''noise_analysis'', Dct noise_results),
          (''thrust_analysis'', Dct thrust_results),
          (''performance_metrics'', Dct performance_metrics),
          (''propeller_geometry'', Dct propeller_geometry),
          (''operating_conditions'', Dct operating_conditions)])))))"

text \<open>The block of \<open>evaluate_bio_inspired_design\<close> that collects the parameters of the
  requested features from the modified geometry.\<close>

definition feature_params_of :: "pydict \<Rightarrow> string list \<Rightarrow> pydict" where
  "feature_params_of modified_geometry features =
     (let feature_params = [];
          feature_params =
            (if ''owl_serrations'' \<in> set features then
               set_item feature_params ''owl_serrations''
                 (get_or modified_geometry ''trailing_edge_serrations'' (Dct []))
             else feature_params);
          feature_params =
            (if ''humpback_tubercles'' \<in> set features then
               set_item feature_params ''humpback_tubercles''
                 (get_or modified_geometry ''leading_edge_tubercles'' (Dct []))
             else feature_params);
          feature_params =
            (if ''dragonfly_corrugations'' \<in> set features then
               set_item feature_params ''dragonfly_corrugations''
                 (get_or modified_geometry ''surface_corrugations'' (Dct []))
             else feature_params)
      in feature_params)"

text \<open>
  The noise analysis is a dictionary inside the evaluation; the source updates it in
  place, so the evaluation holds the updated analysis.
\<close>

definition evaluate_bio_inspired_design ::
  "pydict \<Rightarrow> string list \<Rightarrow> pydict \<Rightarrow> pynum option \<Rightarrow> error + pydict" where
  "evaluate_bio_inspired_design base_geometry features operating_conditions baseline_ntr =
     bind_err (create_design base_geometry features None) (\<lambda>modified_geometry.
     bind_err (evaluate_design modified_geometry operating_conditions baseline_ntr)
       (\<lambda>evaluation.
     bind_err
       (if features \<noteq> [] then
          bind_err (bind_err (item evaluation ''noise_analysis'') as_dict) (\<lambda>noise_analysis.
          bind_err (item_num noise_analysis ''total_spl_db'') (\<lambda>baseline_noise.
          let feature_params = feature_params_of modified_geometry features in
          bind_err (estimate_combined_noise_reduction baseline_noise features feature_params
                      operating_conditions) (\<lambda>reduction_results.
          bind_err (item reduction_results ''final_noise_db'') (\<lambda>reduced_noise.
          bind_err (item reduction_results ''total_reduction_db'') (\<lambda>noise_reduction_db.
          let noise_analysis = set_item noise_analysis ''total_spl_db'' reduced_noise;
              noise_analysis = set_item noise_analysis ''noise_reduction_db'' noise_reduction_db;
              noise_analysis = set_item noise_analysis ''bio_inspired_reduction''
                                 (Dct reduction_results);
              evaluation = set_item evaluation ''noise_analysis'' (Dct noise_analysis) in
          bind_err (bind_err (item evaluation ''thrust_analysis'') as_dict) (\<lambda>thrust_results.
          bind_err (evaluate_design_performance noise_analysis thrust_results baseline_ntr)
            (\<lambda>performance_metrics.
          Inr (set_item evaluation ''performance_metrics'' (Dct performance_metrics)))))))))
        else Inr evaluation) (\<lambda>evaluation.
     let evaluation = set_item evaluation ''bio_inspired_features'' (Lst (map Str features));
         evaluation = set_item evaluation ''modified_geometry'' (Dct modified_geometry)
     in Inr evaluation)))"

section \<open>Arithmetic of the model\<close>

lemma Fin_arith [simp]:
  "Fin a + Fin b = Fin (a + b)"
  "Fin a - Fin b = Fin (a - b)"
  "Fin a * Fin b = Fin (a * b)"
  "- Fin a = Fin (- a)"
  "(Fin a \<le> Fin b) = (a \<le> b)"
  "(Fin a < Fin b) = (a < b)"
  by (simp_all add: plus_pyfloat_def minus_pyfloat_def times_pyfloat_def uminus_pyfloat_def
      less_eq_pyfloat_def less_pyfloat_def)

lemma val_mk_num [simp]: "val (mk_num np x) = x"
  by (simp add: mk_num_def)

lemma is_np_mk_num [simp]: "is_np (mk_num np x) = np"
  by (simp add: mk_num_def)

lemma mk_num_False [simp]: "mk_num False x = PyNum x"
  by (simp add: mk_num_def)

lemma mk_num_True [simp]: "mk_num True x = NpNum x"
  by (simp add: mk_num_def)

lemma val_arith [simp]:
  "val (a + b) = val a + val b"
  "val (a - b) = val a - val b"
  "val (a * b) = val a * val b"
  "val (- a) = - val a"
  by (simp_all add: plus_pynum_def minus_pynum_def times_pynum_def uminus_pynum_def)

lemma is_np_arith [simp]:
  "is_np (a + b) = (is_np a \<or> is_np b)"
  "is_np (a - b) = (is_np a \<or> is_np b)"
  "is_np (a * b) = (is_np a \<or> is_np b)"
  "is_np (- a) = is_np a"
  by (simp_all add: plus_pynum_def minus_pynum_def times_pynum_def uminus_pynum_def)

lemma pynum_eq_iff: "(a = b) = (is_np a = is_np b \<and> val a = val b)"
  by (cases a; cases b) auto

lemma bind_err_simps [simp]:
  "bind_err (Inl e) f = Inl e"
  "bind_err (Inr x) f = f x"
  by (simp_all add: bind_err_def)

lemma PyNum_arith [simp]:
  "PyNum a + PyNum b = PyNum (a + b)"
  "PyNum a - PyNum b = PyNum (a - b)"
  "PyNum a * PyNum b = PyNum (a * b)"
  "- PyNum a = PyNum (- a)"
  "(PyNum a \<le> PyNum b) = (a \<le> b)"
  "(PyNum a < PyNum b) = (a < b)"
  by (simp_all add: plus_pynum_def minus_pynum_def times_pynum_def uminus_pynum_def
      less_eq_pynum_def less_pynum_def)

lemma fdiv_one [simp]: "fdiv x (Fin 1) = x"
  by (cases x) auto






lemma item_set_item_same [simp]: "item (set_item d k v) k = Inr v"
  by (simp add: item_def set_item_def update_conv')

lemma item_set_item_other [simp]: "k' \<noteq> k \<Longrightarrow> item (set_item d k v) k' = item d k'"
  by (simp add: item_def set_item_def update_conv')

text \<open>Powers inside the range of a double.\<close>

lemma dbl_range: "dbl_tiny \<le> 1 / 10 ^ 300" "10 ^ 300 \<le> dbl_max"
  by (simp_all add: dbl_tiny_def dbl_max_def)

lemma pow_result_Fin:
  assumes "1 / 10 ^ 300 \<le> \<bar>r\<bar>" "\<bar>r\<bar> \<le> 10 ^ 300"
  shows "pow_result np (Fin r) = Inr (mk_num np (Fin r))"
proof -
  have "\<not> dbl_max < \<bar>r\<bar>" using assms(2) dbl_range(2) by linarith
  moreover have "\<not> \<bar>r\<bar> < dbl_tiny" using assms(1) dbl_range(1) by linarith
  ultimately show ?thesis by (simp add: pow_result_def)
qed

lemma pow_result_zero [simp]: "pow_result np (Fin 0) = Inr (mk_num np (Fin 0))"
  by (simp add: pow_result_def dbl_max_def)

lemma fpow_Fin [simp]: "fpow (Fin v) n = Fin (v ^ n)"
  by (induction n) (simp_all add: times_pyfloat_def)

lemma pow_int_Fin: "val a = Fin v \<Longrightarrow> pow_int a n = pow_result (is_np a) (Fin (v ^ n))"
  by (simp add: pow_int_def)

lemma pow_int_moderate:
  "val a = Fin v \<Longrightarrow> 1 / 10 ^ 300 \<le> \<bar>v ^ n\<bar> \<Longrightarrow> \<bar>v ^ n\<bar> \<le> 10 ^ 300 \<Longrightarrow>
     pow_int a n = Inr (mk_num (is_np a) (Fin (v ^ n)))"
  by (simp add: pow_int_Fin pow_result_Fin)

lemma power_range:
  fixes v :: real
  assumes "1 / 10 ^ 30 \<le> \<bar>v\<bar>" "\<bar>v\<bar> \<le> 10 ^ 30" "n \<le> 10"
  shows "1 / 10 ^ 300 \<le> \<bar>v ^ n\<bar>" "\<bar>v ^ n\<bar> \<le> 10 ^ 300"
proof -
  have e: "30 * n \<le> 300" using assms(3) by simp
  have up: "(10 :: real) ^ (30 * n) \<le> 10 ^ 300"
    by (rule power_increasing [OF e]) simp
  have "\<bar>v\<bar> ^ n \<le> (10 ^ 30) ^ n"
    by (rule power_mono [OF assms(2)]) simp
  also have "(10 ^ 30 :: real) ^ n = 10 ^ (30 * n)"
    by (rule power_mult [symmetric])
  finally have "\<bar>v\<bar> ^ n \<le> 10 ^ 300"
    using up by (rule order_trans)
  then show "\<bar>v ^ n\<bar> \<le> 10 ^ 300"
    unfolding power_abs .
  have pos: "(0 :: real) < 10 ^ (30 * n)" by (rule zero_less_power) simp
  have low: "1 / 10 ^ 300 \<le> 1 / (10 :: real) ^ (30 * n)"
    by (rule divide_left_mono [OF up]) (simp_all only: zero_le_one mult_pos_pos pos zero_less_power zero_less_numeral)
  have "(1 / 10 ^ 30) ^ n \<le> \<bar>v\<bar> ^ n"
    by (rule power_mono [OF assms(1)]) (simp only: zero_le_divide_1_iff zero_le_power zero_le_numeral)
  moreover have "(1 / 10 ^ 30 :: real) ^ n = 1 / 10 ^ (30 * n)"
    by (simp only: power_one_over power_mult [symmetric])
  ultimately have "1 / 10 ^ (30 * n) \<le> \<bar>v\<bar> ^ n" by (simp only:)
  with low have "1 / 10 ^ 300 \<le> \<bar>v\<bar> ^ n" by (rule order_trans)
  then show "1 / 10 ^ 300 \<le> \<bar>v ^ n\<bar>"
    unfolding power_abs .
qed

lemma pow_int_range:
  assumes "val a = Fin v" "1 / 10 ^ 30 \<le> \<bar>v\<bar>" "\<bar>v\<bar> \<le> 10 ^ 30" "n \<le> 10"
  shows "pow_int a n = Inr (mk_num (is_np a) (Fin (v ^ n)))"
  using pow_int_moderate [OF assms(1) power_range [OF assms(2,3,4)]] .

lemma pow_int_num:
  "1 / 10 ^ 30 \<le> \<bar>v\<bar> \<Longrightarrow> \<bar>v\<bar> \<le> 10 ^ 30 \<Longrightarrow> n \<le> 10 \<Longrightarrow>
     pow_int (PyNum (Fin v)) n = Inr (PyNum (Fin (v ^ n)))"
  "1 / 10 ^ 30 \<le> \<bar>v\<bar> \<Longrightarrow> \<bar>v\<bar> \<le> 10 ^ 30 \<Longrightarrow> n \<le> 10 \<Longrightarrow>
     pow_int (NpNum (Fin v)) n = Inr (NpNum (Fin (v ^ n)))"
  by (simp_all add: pow_int_range)

lemma pow_int_zero: "val a = Fin 0 \<Longrightarrow> 0 < n \<Longrightarrow> pow_int a n = Inr (mk_num (is_np a) (Fin 0))"
  by (simp add: pow_int_Fin zero_power)

section \<open>Claims about the metrics\<close>





section \<open>The combined reduction refines its specification\<close>

lemma owl_result:
  "owl_estimate_noise_reduction b p f v = Inr res \<Longrightarrow>
     \<exists>r. item_num res ''noise_reduction_db'' = Inr r \<and> item_num res ''reduced_noise_db'' = Inr (b - r)"
  by (auto simp: owl_estimate_noise_reduction_def bind_err_def Let_def item_num_def item_def
      split: sum.splits)

lemma humpback_result:
  "humpback_estimate_noise_reduction b p oc = Inr res \<Longrightarrow>
     \<exists>r. item_num res ''noise_reduction_db'' = Inr r \<and> item_num res ''reduced_noise_db'' = Inr (b - r)"
  by (auto simp: humpback_estimate_noise_reduction_def bind_err_def Let_def item_num_def item_def
      split: sum.splits)

lemma dragonfly_result:
  "dragonfly_estimate_noise_reduction b p re v = Inr res \<Longrightarrow>
     \<exists>r. item_num res ''noise_reduction_db'' = Inr r \<and> item_num res ''reduced_noise_db'' = Inr (b - r)"
  by (auto simp: dragonfly_estimate_noise_reduction_def bind_err_def Let_def item_num_def item_def
      split: sum.splits)

lemma feature_reduce_result:
  "feature_reduce fp oc f level = Some (Inr res) \<Longrightarrow>
     \<exists>r. item_num res ''noise_reduction_db'' = Inr r \<and> item_num res ''reduced_noise_db'' = Inr (level - r)"
  by (auto simp: feature_reduce_def bind_err_def split: if_splits sum.splits
      dest: owl_result humpback_result dragonfly_result)

lemma reduction_step_eq:
  "reduction_step fp oc f st =
     (case feature_reduce fp oc f (current_noise st) of
        None \<Rightarrow> Inr st
      | Some outcome \<Rightarrow>
          bind_err outcome (\<lambda>result.
          bind_err (item_num result ''noise_reduction_db'') (\<lambda>reduction.
          Inr \<lparr>total_reduction = total_reduction st + reduction,
               individual_reductions = set_item (individual_reductions st) f (Num reduction),
               current_noise = current_noise st - reduction\<rparr>)))"
proof (cases "feature_reduce fp oc f (current_noise st)")
  case None
  then show ?thesis
    by (simp add: reduction_step_def feature_reduce_def split: if_splits)
next
  case (Some outcome)
  show ?thesis
  proof (cases outcome)
    case (Inl e)
    with Some show ?thesis
      by (auto simp: reduction_step_def feature_reduce_def bind_err_def Let_def
          split: if_splits sum.splits)
  next
    case (Inr res)
    with Some obtain r where r: "item_num res ''noise_reduction_db'' = Inr r"
        "item_num res ''reduced_noise_db'' = Inr (current_noise st - r)"
      using feature_reduce_result by blast
    with Some Inr show ?thesis
      by (auto simp: reduction_step_def feature_reduce_def bind_err_def Let_def record_reduction_def
          split: if_splits sum.splits)
  qed
qed


lemma reduction_loop_eq:
  "reduction_loop fp oc fs st =
     bind_err (sequential_reductions fp oc fs (current_noise st))
       (\<lambda>rs. Inr (apply_reductions st rs))"
proof (induction fs arbitrary: st)
  case Nil
  show ?case by (simp add: apply_reductions_def)
next
  case (Cons f fs)
  show ?case
  proof (cases "feature_reduce fp oc f (current_noise st)")
    case None
    then show ?thesis
      by (simp add: reduction_step_eq Cons.IH)
  next
    case (Some outcome)
    then show ?thesis
      by (cases outcome)
        (auto simp: reduction_step_eq Cons.IH bind_err_def apply_reductions_def
          split: sum.splits)
  qed
qed

lemma pynum_mult_one [simp]: "x * F 1 = (x :: pynum)"
proof -
  have "fmul v (Fin 1) = v" for v by (cases v) auto
  then show ?thesis
    by (cases x) (simp_all add: times_pynum_def times_pyfloat_def)
qed

lemma estimate_combined_eq_spec:
  "estimate_combined_noise_reduction b fs fp oc = combined_reduction_spec b fs fp oc"
  by (cases "sequential_reductions fp oc fs b")
    (auto simp: estimate_combined_noise_reduction_def combined_reduction_spec_def
      reduction_loop_eq apply_reductions_def synergy_multiplier_def summed_reduction_def
      reductions_by_name_def Let_def)

lemma synergy_values:
  "synergy_multiplier 0 = F 1" "synergy_multiplier 1 = F 1" "synergy_multiplier 3 = F 1.36"
  "1 < k \<Longrightarrow> synergy_multiplier k = F (1 + 0.18 * (real k - 1))"
  by (simp_all add: synergy_multiplier_def)

lemma synergy_multiplier_eq:
  "synergy_multiplier k = (if k \<le> 1 then F 1 else F (1 + 0.18 * (real k - 1)))"
  by (simp add: synergy_multiplier_def)

lemma sequential_reductions_names:
  "sequential_reductions fp oc fs level = Inr rs \<Longrightarrow>
     map fst rs = filter (\<lambda>f. f \<in> {''owl_serrations'', ''humpback_tubercles'', ''dragonfly_corrugations''}) fs"
proof (induction fs arbitrary: level rs)
  case Nil
  then show ?case by simp
next
  case (Cons f fs)
  show ?case
  proof (cases "feature_reduce fp oc f level")
    case None
    then have "f \<notin> {''owl_serrations'', ''humpback_tubercles'', ''dragonfly_corrugations''}"
      by (auto simp: feature_reduce_def split: if_splits)
    with None Cons show ?thesis by simp
  next
    case (Some outcome)
    then have "f \<in> {''owl_serrations'', ''humpback_tubercles'', ''dragonfly_corrugations''}"
      by (auto simp: feature_reduce_def split: if_splits)
    with Some Cons show ?thesis
      by (auto simp: bind_err_def split: sum.splits)
  qed
qed

lemma combined_spec_entries:
  "combined_reduction_spec b fs fp oc = Inr res \<Longrightarrow>
     \<exists>rs. sequential_reductions fp oc fs b = Inr rs
        \<and> item res ''total_reduction_db'' =
            Inr (Num (summed_reduction rs * synergy_multiplier (length fs)))
        \<and> item res ''final_noise_db'' =
            Inr (Num (b - summed_reduction rs * synergy_multiplier (length fs)))
        \<and> item res ''interaction_factor'' = Inr (Num (synergy_multiplier (length fs)))"
  by (auto simp: combined_reduction_spec_def bind_err_def Let_def item_def split: sum.splits)

text \<open>
  C3. The combined reduction takes the listed features in the order of the list and
  calls each feature's estimate at the running level, that is the level left after the
  reductions of the features before it were subtracted; the summed reduction is multiplied
  by the synergy multiplier \<open>1 + 0.18 (k - 1)\<close> for a list of \<open>k\<close> names (1 for
  \<open>k \<le> 1\<close>, 1.36 for \<open>k = 3\<close>), and the final level is the baseline minus that
  effective reduction. The function and its specification agree on every input, errors
  included.
\<close>

theorem combined_reduction_sequential_with_synergy:
  "estimate_combined_noise_reduction b fs fp oc = combined_reduction_spec b fs fp oc
   \<and> synergy_multiplier k = (if k \<le> 1 then F 1 else F (1 + 0.18 * (real k - 1)))
   \<and> synergy_multiplier 3 = F 1.36
   \<and> (\<forall>res. estimate_combined_noise_reduction b fs fp oc = Inr res \<longrightarrow>
        (\<exists>rs. sequential_reductions fp oc fs b = Inr rs
           \<and> item res ''total_reduction_db'' =
               Inr (Num (summed_reduction rs * synergy_multiplier (length fs)))
           \<and> item res ''final_noise_db'' =
               Inr (Num (b - summed_reduction rs * synergy_multiplier (length fs)))))"
proof -
  have "\<exists>rs. sequential_reductions fp oc fs b = Inr rs
           \<and> item res ''total_reduction_db'' =
               Inr (Num (summed_reduction rs * synergy_multiplier (length fs)))
           \<and> item res ''final_noise_db'' =
               Inr (Num (b - summed_reduction rs * synergy_multiplier (length fs)))"
    if "estimate_combined_noise_reduction b fs fp oc = Inr res" for res
    using that combined_spec_entries [of b fs fp oc res]
    by (auto simp: estimate_combined_eq_spec)
  then show ?thesis
    by (simp add: estimate_combined_eq_spec synergy_multiplier_eq)
qed

theorem combined_reduction_sequential_with_synergy_witness:
  "\<exists>res. estimate_combined_noise_reduction (F 80)
      [''owl_serrations'', ''humpback_tubercles'', ''dragonfly_corrugations'']
      [(''owl_serrations'', Dct [(''depth_m'', Num (F 0.0025)), (''wavelength_m'', Num (F 0.001))]),
       (''humpback_tubercles'', Dct [(''num_tubercles'', Num (F 4)), (''amplitude_ratio'', Num (F 0.12))]),
       (''dragonfly_corrugations'', Dct [(''depth_m'', Num (F 0.0015)), (''wavelength_m'', Num (F 0.0025)),
          (''num_corrugations'', Num (F 20))])]
      [(''frequency_hz'', Num (F 1000)), (''angle_of_attack'', Num (F 5)),
       (''reynolds_number'', Num (F 200000))] = Inr res
    \<and> item res ''total_reduction_db'' = Inr (Num (F 33.15595))
    \<and> item res ''final_noise_db'' = Inr (Num (F 46.84405))"
  using combined_reduction_sequential_with_synergy [of "F 80"
      "[''owl_serrations'', ''humpback_tubercles'', ''dragonfly_corrugations'']"
      "[(''owl_serrations'', Dct [(''depth_m'', Num (F 0.0025)), (''wavelength_m'', Num (F 0.001))]),
       (''humpback_tubercles'', Dct [(''num_tubercles'', Num (F 4)), (''amplitude_ratio'', Num (F 0.12))]),
       (''dragonfly_corrugations'', Dct [(''depth_m'', Num (F 0.0015)), (''wavelength_m'', Num (F 0.0025)),
          (''num_corrugations'', Num (F 20))])]"
      "[(''frequency_hz'', Num (F 1000)), (''angle_of_attack'', Num (F 5)),
       (''reynolds_number'', Num (F 200000))]" 3]
  by (simp add: combined_reduction_spec_def feature_reduce_def get_or_def
      owl_estimate_noise_reduction_def humpback_estimate_noise_reduction_def
      dragonfly_estimate_noise_reduction_def owl_effectiveness_def tubercle_aoa_factor_def
      dragonfly_re_factor_def item_def item_num_def get_num_def py_div_def divc_def py_min_def
      summed_reduction_def synergy_multiplier_def Let_def)

text \<open>
  C10. The synergy multiplier is computed from the length of the list of names as the
  caller passed it: for a list of \<open>k > 1\<close> names it is \<open>1 + 0.18 (k - 1)\<close>, whether
  or not the names are features. The reductions that are summed are those of the
  occurrences of the three feature names, in order, once per occurrence: a name that is
  no feature adds no reduction, a repeated name adds one reduction per occurrence.
\<close>

theorem synergy_from_raw_list_length:
  assumes "estimate_combined_noise_reduction b fs fp oc = Inr res"
    and "1 < length fs"
  shows "item res ''interaction_factor'' = Inr (Num (F (1 + 0.18 * (real (length fs) - 1))))
    \<and> (\<exists>rs. sequential_reductions fp oc fs b = Inr rs
         \<and> map fst rs =
             filter (\<lambda>f. f \<in> {''owl_serrations'', ''humpback_tubercles'',
                                 ''dragonfly_corrugations''}) fs
         \<and> item res ''total_reduction_db'' =
             Inr (Num (summed_reduction rs * F (1 + 0.18 * (real (length fs) - 1)))))"
proof -
  from assms(1) have "combined_reduction_spec b fs fp oc = Inr res"
    by (simp add: estimate_combined_eq_spec)
  then obtain rs where rs: "sequential_reductions fp oc fs b = Inr rs"
    and total: "item res ''total_reduction_db'' =
            Inr (Num (summed_reduction rs * synergy_multiplier (length fs)))"
    and factor: "item res ''interaction_factor'' = Inr (Num (synergy_multiplier (length fs)))"
    using combined_spec_entries by blast
  from assms(2) have syn: "synergy_multiplier (length fs) = F (1 + 0.18 * (real (length fs) - 1))"
    by (simp add: synergy_multiplier_eq)
  from rs have "map fst rs =
      filter (\<lambda>f. f \<in> {''owl_serrations'', ''humpback_tubercles'', ''dragonfly_corrugations''}) fs"
    by (rule sequential_reductions_names)
  with rs total factor syn show ?thesis by auto
qed

theorem synergy_from_raw_list_length_witness:
  "\<exists>res. estimate_combined_noise_reduction (F 80)
      [''owl_serrations'', ''winglets'', ''owl_serrations'']
      [(''owl_serrations'', Dct [(''depth_m'', Num (F 0.0025)), (''wavelength_m'', Num (F 0.001))])]
      [] = Inr res
    \<and> item res ''interaction_factor'' = Inr (Num (F 1.36))
    \<and> item res ''total_reduction_db'' = Inr (Num (F 4.76))
    \<and> item res ''individual_reductions'' = Inr (Dct [(''owl_serrations'', Num (F 1.75))])"
proof -
  have ev: "estimate_combined_noise_reduction (F 80)
      [''owl_serrations'', ''winglets'', ''owl_serrations'']
      [(''owl_serrations'', Dct [(''depth_m'', Num (F 0.0025)), (''wavelength_m'', Num (F 0.001))])]
      [] =
    Inr [(''total_reduction_db'', Num (F 4.76)), (''final_noise_db'', Num (F 75.24)),
         (''individual_reductions'', Dct [(''owl_serrations'', Num (F 1.75))]),
         (''interaction_factor'', Num (F 1.36)), (''reduction_percentage'', Num (F 5.95))]"
    by (simp add: estimate_combined_noise_reduction_def reduction_step_def get_or_def
      owl_estimate_noise_reduction_def owl_effectiveness_def record_reduction_def set_item_def
      item_def item_num_def py_div_def divc_def py_min_def Let_def)
  from synergy_from_raw_list_length [OF ev] show ?thesis
    unfolding ev by (simp add: item_def)
qed

text \<open>
  C9. The claim is that every operation returns a value on every numeric input, the
  reduction estimates at baseline 0 included. The code does not: each of the three
  estimates and the combined estimate end with a division by the baseline level, and with
  the Python float 0.0 as baseline that division raises ZeroDivisionError (the combined
  estimate even for an empty list of names). The metrics module guards the same division
  (\<open>calculate_noise_reduction_percentage\<close> returns 0 for a baseline that is not
  positive).
\<close>

theorem reduction_estimates_raise_at_zero_baseline:
  "owl_estimate_noise_reduction (F 0)
      [(''depth_m'', Num (F 0.0025)), (''wavelength_m'', Num (F 0.001))]
      (F 1000) (Num (F 10)) = Inl ZeroDivisionError
   \<and> humpback_estimate_noise_reduction (F 0)
      [(''num_tubercles'', Num (F 4)), (''amplitude_ratio'', Num (F 0.12))]
      [(''angle_of_attack'', Num (F 5))] = Inl ZeroDivisionError
   \<and> dragonfly_estimate_noise_reduction (F 0)
      [(''depth_m'', Num (F 0.0015)), (''wavelength_m'', Num (F 0.0025)),
       (''num_corrugations'', Num (F 20))]
      (F 200000) (Num (F 10)) = Inl ZeroDivisionError
   \<and> estimate_combined_noise_reduction (F 0) [''owl_serrations'']
      [(''owl_serrations'', Dct [(''depth_m'', Num (F 0.0025)), (''wavelength_m'', Num (F 0.001))])]
      [(''frequency_hz'', Num (F 1000)), (''velocity'', Num (F 10))] = Inl ZeroDivisionError
   \<and> estimate_combined_noise_reduction (F 0) [] [] [] = Inl ZeroDivisionError
   \<and> calculate_noise_reduction_percentage (F 0) (F 5) = Inr (F 0)"
  by (simp add: estimate_combined_noise_reduction_def reduction_step_def get_or_def get_num_def
      owl_estimate_noise_reduction_def owl_effectiveness_def
      humpback_estimate_noise_reduction_def tubercle_aoa_factor_def
      dragonfly_estimate_noise_reduction_def dragonfly_re_factor_def
      calculate_noise_reduction_percentage_def
      item_def item_num_def py_div_def divc_def py_min_def Let_def)

section \<open>The feature applications leave the caller's record alone\<close>

lemma heap_store_new [simp]:
  "heap_store (h @ [d]) (length h) k v = h @ [set_item d k v]"
  by (simp add: heap_store_def)

lemma heap_get_old [simp]:
  "a < length h \<Longrightarrow> heap_get (h @ [d]) a k dflt = get_or (h ! a) k dflt"
  by (simp add: heap_get_def nth_append)

lemma owl_heap_frame:
  "take (length h) (fst (owl_apply_to_blade_design_heap h a cfg)) = h"
  by (auto simp: owl_apply_to_blade_design_heap_def heap_copy_def Let_def
      split: sum.splits option.splits)

lemma owl_heap_result:
  "a < length h \<Longrightarrow>
   (case snd (owl_apply_to_blade_design_heap h a cfg) of
      Inl e \<Rightarrow> owl_apply_to_blade_design (h ! a) cfg = Inl e
    | Inr m \<Rightarrow> m = length h
        \<and> owl_apply_to_blade_design (h ! a) cfg =
            Inr (fst (owl_apply_to_blade_design_heap h a cfg) ! m))"
  by (auto simp: owl_apply_to_blade_design_heap_def owl_apply_to_blade_design_def heap_copy_def
      heap_get_def nth_append Let_def bind_err_def split: sum.splits option.splits)

lemma humpback_heap_frame:
  "take (length h) (fst (humpback_apply_to_blade_design_heap h a cfg)) = h"
  by (auto simp: humpback_apply_to_blade_design_heap_def heap_copy_def Let_def
      split: sum.splits option.splits)

lemma humpback_heap_result:
  "a < length h \<Longrightarrow>
   (case snd (humpback_apply_to_blade_design_heap h a cfg) of
      Inl e \<Rightarrow> humpback_apply_to_blade_design (h ! a) cfg = Inl e
    | Inr m \<Rightarrow> m = length h
        \<and> humpback_apply_to_blade_design (h ! a) cfg =
            Inr (fst (humpback_apply_to_blade_design_heap h a cfg) ! m))"
  by (auto simp: humpback_apply_to_blade_design_heap_def humpback_apply_to_blade_design_def
      heap_copy_def heap_get_def nth_append Let_def bind_err_def split: sum.splits option.splits)

lemma dragonfly_heap_frame:
  "take (length h) (fst (dragonfly_apply_to_blade_design_heap h a cfg)) = h"
  by (auto simp: dragonfly_apply_to_blade_design_heap_def heap_copy_def Let_def
      split: sum.splits option.splits)

lemma dragonfly_heap_result:
  "a < length h \<Longrightarrow>
   (case snd (dragonfly_apply_to_blade_design_heap h a cfg) of
      Inl e \<Rightarrow> dragonfly_apply_to_blade_design (h ! a) cfg = Inl e
    | Inr m \<Rightarrow> m = length h
        \<and> dragonfly_apply_to_blade_design (h ! a) cfg =
            Inr (fst (dragonfly_apply_to_blade_design_heap h a cfg) ! m))"
  by (auto simp: dragonfly_apply_to_blade_design_heap_def dragonfly_apply_to_blade_design_def
      heap_copy_def heap_get_def nth_append Let_def bind_err_def split: sum.splits option.splits)


lemma owl_heap_length:
  "snd (owl_apply_to_blade_design_heap h a cfg) = Inr m \<Longrightarrow>
     m = length h \<and> length (fst (owl_apply_to_blade_design_heap h a cfg)) = Suc (length h)"
  by (auto simp: owl_apply_to_blade_design_heap_def heap_copy_def Let_def
      split: sum.splits option.splits)

lemma humpback_heap_length:
  "snd (humpback_apply_to_blade_design_heap h a cfg) = Inr m \<Longrightarrow>
     m = length h \<and> length (fst (humpback_apply_to_blade_design_heap h a cfg)) = Suc (length h)"
  by (auto simp: humpback_apply_to_blade_design_heap_def heap_copy_def Let_def
      split: sum.splits option.splits)

lemma dragonfly_heap_length:
  "snd (dragonfly_apply_to_blade_design_heap h a cfg) = Inr m \<Longrightarrow>
     m = length h \<and> length (fst (dragonfly_apply_to_blade_design_heap h a cfg)) = Suc (length h)"
  by (auto simp: dragonfly_apply_to_blade_design_heap_def heap_copy_def Let_def
      split: sum.splits option.splits)

lemma frame_nth: "take (length h) h' = h \<Longrightarrow> a < length h \<Longrightarrow> h' ! a = h ! a"
  by (metis nth_take)

text \<open>
  C7. Applying a feature (serration, tubercle or corrugation) to a geometry record leaves
  the caller's record as it was: the dictionary at the caller's reference has the same
  entries after the call, and so has every dictionary that existed before the call,
  whether the call returns or raises. When the call returns, the result is a new
  dictionary (a reference that did not exist before), and its contents are those the
  value-level function gives.
\<close>

theorem apply_leaves_original_record_unchanged:
  assumes "blade_geometry < length h"
  shows "fst (owl_apply_to_blade_design_heap h blade_geometry config) ! blade_geometry
           = h ! blade_geometry
    \<and> fst (humpback_apply_to_blade_design_heap h blade_geometry config) ! blade_geometry
           = h ! blade_geometry
    \<and> fst (dragonfly_apply_to_blade_design_heap h blade_geometry config) ! blade_geometry
           = h ! blade_geometry
    \<and> take (length h) (fst (owl_apply_to_blade_design_heap h blade_geometry config)) = h
    \<and> take (length h) (fst (humpback_apply_to_blade_design_heap h blade_geometry config)) = h
    \<and> take (length h) (fst (dragonfly_apply_to_blade_design_heap h blade_geometry config)) = h
    \<and> (case snd (owl_apply_to_blade_design_heap h blade_geometry config) of
          Inl e \<Rightarrow> owl_apply_to_blade_design (h ! blade_geometry) config = Inl e
        | Inr m \<Rightarrow> m \<noteq> blade_geometry \<and> m = length h
            \<and> owl_apply_to_blade_design (h ! blade_geometry) config =
                Inr (fst (owl_apply_to_blade_design_heap h blade_geometry config) ! m))
    \<and> (case snd (humpback_apply_to_blade_design_heap h blade_geometry config) of
          Inl e \<Rightarrow> humpback_apply_to_blade_design (h ! blade_geometry) config = Inl e
        | Inr m \<Rightarrow> m \<noteq> blade_geometry \<and> m = length h
            \<and> humpback_apply_to_blade_design (h ! blade_geometry) config =
                Inr (fst (humpback_apply_to_blade_design_heap h blade_geometry config) ! m))
    \<and> (case snd (dragonfly_apply_to_blade_design_heap h blade_geometry config) of
          Inl e \<Rightarrow> dragonfly_apply_to_blade_design (h ! blade_geometry) config = Inl e
        | Inr m \<Rightarrow> m \<noteq> blade_geometry \<and> m = length h
            \<and> dragonfly_apply_to_blade_design (h ! blade_geometry) config =
                Inr (fst (dragonfly_apply_to_blade_design_heap h blade_geometry config) ! m))"
proof -
  note frames = owl_heap_frame [of h blade_geometry config]
    humpback_heap_frame [of h blade_geometry config]
    dragonfly_heap_frame [of h blade_geometry config]
  have unchanged:
    "fst (owl_apply_to_blade_design_heap h blade_geometry config) ! blade_geometry
       = h ! blade_geometry"
    "fst (humpback_apply_to_blade_design_heap h blade_geometry config) ! blade_geometry
       = h ! blade_geometry"
    "fst (dragonfly_apply_to_blade_design_heap h blade_geometry config) ! blade_geometry
       = h ! blade_geometry"
    using frames assms by (simp_all add: frame_nth)
  have owl: "case snd (owl_apply_to_blade_design_heap h blade_geometry config) of
          Inl e \<Rightarrow> owl_apply_to_blade_design (h ! blade_geometry) config = Inl e
        | Inr m \<Rightarrow> m \<noteq> blade_geometry \<and> m = length h
            \<and> owl_apply_to_blade_design (h ! blade_geometry) config =
                Inr (fst (owl_apply_to_blade_design_heap h blade_geometry config) ! m)"
    using owl_heap_result [OF assms, of config] assms by (auto split: sum.splits)
  have humpback: "case snd (humpback_apply_to_blade_design_heap h blade_geometry config) of
          Inl e \<Rightarrow> humpback_apply_to_blade_design (h ! blade_geometry) config = Inl e
        | Inr m \<Rightarrow> m \<noteq> blade_geometry \<and> m = length h
            \<and> humpback_apply_to_blade_design (h ! blade_geometry) config =
                Inr (fst (humpback_apply_to_blade_design_heap h blade_geometry config) ! m)"
    using humpback_heap_result [OF assms, of config] assms by (auto split: sum.splits)
  have dragonfly: "case snd (dragonfly_apply_to_blade_design_heap h blade_geometry config) of
          Inl e \<Rightarrow> dragonfly_apply_to_blade_design (h ! blade_geometry) config = Inl e
        | Inr m \<Rightarrow> m \<noteq> blade_geometry \<and> m = length h
            \<and> dragonfly_apply_to_blade_design (h ! blade_geometry) config =
                Inr (fst (dragonfly_apply_to_blade_design_heap h blade_geometry config) ! m)"
    using dragonfly_heap_result [OF assms, of config] assms by (auto split: sum.splits)
  from unchanged frames owl humpback dragonfly show ?thesis
    by (intro conjI)
qed

theorem apply_leaves_original_record_unchanged_witness:
  "fst (owl_apply_to_blade_design_heap
      [[(''chord_length'', Num (F 0.05)), (''radius'', Num (F 0.127)),
        (''drag_coefficient'', Num (F 0.02))]] 0 None) ! 0
     = [(''chord_length'', Num (F 0.05)), (''radius'', Num (F 0.127)),
        (''drag_coefficient'', Num (F 0.02))]
   \<and> snd (owl_apply_to_blade_design_heap
      [[(''chord_length'', Num (F 0.05)), (''radius'', Num (F 0.127)),
        (''drag_coefficient'', Num (F 0.02))]] 0 None) = Inr 1
   \<and> snd (humpback_apply_to_blade_design_heap
      [[(''chord_length'', Num (F 0.05)), (''radius'', Num (F 0.127)),
        (''drag_coefficient'', Num (F 0.02))]] 0 None) = Inr 1
   \<and> snd (dragonfly_apply_to_blade_design_heap
      [[(''chord_length'', Num (F 0.05)), (''radius'', Num (F 0.127)),
        (''drag_coefficient'', Num (F 0.02))]] 0 None) = Inr 1"
proof -
  have valid: "0 < length [[(''chord_length'', Num (F 0.05)), (''radius'', Num (F 0.127)),
        (''drag_coefficient'', Num (F 0.02))]]"
    by simp
  have owl: "snd (owl_apply_to_blade_design_heap
      [[(''chord_length'', Num (F 0.05)), (''radius'', Num (F 0.127)),
        (''drag_coefficient'', Num (F 0.02))]] 0 None) = Inr 1"
    by (simp add: owl_apply_to_blade_design_heap_def heap_get_def get_or_def heap_copy_def
        heap_store_def calculate_serration_geometry_def py_div_def py_int_def trunc_def
        divc_def item_num_def item_def set_item_def Let_def)
  have humpback: "snd (humpback_apply_to_blade_design_heap
      [[(''chord_length'', Num (F 0.05)), (''radius'', Num (F 0.127)),
        (''drag_coefficient'', Num (F 0.02))]] 0 None) = Inr 1"
    by (simp add: humpback_apply_to_blade_design_heap_def heap_get_def get_or_def heap_copy_def
        heap_store_def calculate_tubercle_geometry_def py_div_def py_int_def trunc_def py_max_def
        divc_def item_num_def item_def set_item_def Let_def)
  have dragonfly: "snd (dragonfly_apply_to_blade_design_heap
      [[(''chord_length'', Num (F 0.05)), (''radius'', Num (F 0.127)),
        (''drag_coefficient'', Num (F 0.02))]] 0 None) = Inr 1"
    by (simp add: dragonfly_apply_to_blade_design_heap_def heap_get_def get_or_def heap_copy_def
        heap_store_def calculate_corrugation_geometry_def estimate_structural_benefits_def pow_int_num
        py_div_def py_int_def trunc_def py_max_def
        divc_def item_num_def item_def set_item_def Let_def)
  from apply_leaves_original_record_unchanged [OF valid, of None] owl humpback dragonfly
  show ?thesis by simp
qed

section \<open>The composition refines its specification\<close>

lemma create_design_eq_spec:
  "create_design base fs cfgs = compose_spec base fs cfgs"
  by (auto simp: create_design_def compose_spec_def declaration_order_def feature_apply_def
      bind_err_def Let_def split: sum.splits)

lemma compose_spec_cong:
  assumes "set fs \<inter> set declaration_order = set fs' \<inter> set declaration_order"
  shows "compose_spec base fs cfgs = compose_spec base fs' cfgs"
proof -
  have "filter (\<lambda>name. name \<in> set fs) declaration_order
      = filter (\<lambda>name. name \<in> set fs') declaration_order"
    using assms by (intro filter_cong) auto
  then show ?thesis by (simp add: compose_spec_def)
qed

lemma compose_spec_features:
  "compose_spec base fs cfgs = Inr g \<Longrightarrow>
     item g ''bio_inspired_features'' =
       Inr (Lst (map Str (filter (\<lambda>name. name \<in> set fs) declaration_order)))"
  by (auto simp: compose_spec_def bind_err_def Let_def split: sum.splits)

text \<open>
  C8. The composition applies the features named in the list in the declaration order
  (serration, tubercle, corrugation), whatever the order of the list, skips every name
  that is not one of the three, and records the applied names on the result. Two lists
  that name the same features therefore give the same result (the same record or the same
  error).
\<close>

theorem compose_in_declaration_order:
  "create_design base_geometry feature_names configs
     = compose_spec base_geometry feature_names configs
   \<and> (set feature_names \<inter> set declaration_order = set other_names \<inter> set declaration_order
        \<longrightarrow> create_design base_geometry feature_names configs
            = create_design base_geometry other_names configs)
   \<and> (\<forall>geometry. create_design base_geometry feature_names configs = Inr geometry \<longrightarrow>
        item geometry ''bio_inspired_features'' =
          Inr (Lst (map Str (filter (\<lambda>name. name \<in> set feature_names) declaration_order))))"
  using compose_spec_cong [of feature_names other_names base_geometry configs]
    compose_spec_features [of base_geometry feature_names configs]
  by (simp add: create_design_eq_spec)

theorem compose_in_declaration_order_witness:
  "create_design [(''chord_length'', Num (F 0.05)), (''radius'', Num (F 0.127))]
      [''dragonfly_corrugations'', ''winglets'', ''owl_serrations''] None
     = create_design [(''chord_length'', Num (F 0.05)), (''radius'', Num (F 0.127))]
      [''owl_serrations'', ''dragonfly_corrugations''] None
   \<and> (\<exists>geometry.
        create_design [(''chord_length'', Num (F 0.05)), (''radius'', Num (F 0.127))]
          [''dragonfly_corrugations'', ''winglets'', ''owl_serrations''] None = Inr geometry
      \<and> item geometry ''bio_inspired_features'' =
          Inr (Lst [Str ''owl_serrations'', Str ''dragonfly_corrugations'']))"
proof -
  have "\<exists>geometry.
        create_design [(''chord_length'', Num (F 0.05)), (''radius'', Num (F 0.127))]
          [''dragonfly_corrugations'', ''winglets'', ''owl_serrations''] None = Inr geometry"
    by (simp add: create_design_def owl_apply_to_blade_design_def
        dragonfly_apply_to_blade_design_def get_or_def
        calculate_serration_geometry_def calculate_corrugation_geometry_def
        estimate_structural_benefits_def pow_int_num py_div_def py_int_def trunc_def py_max_def
        divc_def item_num_def item_def set_item_def Let_def)
  then show ?thesis
    using compose_in_declaration_order [of
        "[(''chord_length'', Num (F 0.05)), (''radius'', Num (F 0.127))]"
        "[''dragonfly_corrugations'', ''winglets'', ''owl_serrations'']" None
        "[''owl_serrations'', ''dragonfly_corrugations'']"]
    by (auto simp: declaration_order_def)
qed

end
